theory Spec2Isabelle
  imports Main "HOL-Library.Word"
begin

section \<open>Values, exceptions and the outside world\<close>

text \<open>
  A Python string is its sequence of code points; \<open>lit\<close> is the string a literal of the
  source denotes. A string parsed from JSON may hold any code point, lone surrogates
  (U+D800 to U+DFFF) included.
\<close>

type_synonym pystr = "nat list"

definition lit :: "string \<Rightarrow> pystr" where
  "lit s = map of_char s"

definition is_surrogate :: "nat \<Rightarrow> bool" where
  "is_surrogate c = (55296 \<le> c \<and> c \<le> 57343)"

text \<open>
  Text without lone surrogates. \<^verbatim>\<open>str\<close> of a float, a list or a dictionary is such a
  text: \<^verbatim>\<open>repr\<close> writes a surrogate inside a container as an escape.
\<close>

typedef utf8_text = "{t :: pystr. \<forall>c \<in> set t. \<not> is_surrogate c}"
  morphisms text_of Utf8_text
  by (rule exI [of _ "[]"]) simp

typedecl pyfloat

text \<open>
  The relay of \<^verbatim>\<open>deploy/lambda_handler.py\<close> works on JSON-born Python values: the
  transport event, the parsed request body and the notifications are dictionaries with
  string keys. A dictionary is an association list read with \<open>map_of\<close>; a float is a
  value of an unspecified type, the module computes with none.
\<close>

datatype pyval =
    PNone
  | PBool bool
  | PInt int
  | PFloat pyfloat
  | PStr pystr
  | PList "pyval list"
  | PDict "(pystr \<times> pyval) list"

abbreviation PLit :: "string \<Rightarrow> pyval" where
  "PLit t \<equiv> PStr (lit t)"

text \<open>
  An exception is its class name and the text that \<^verbatim>\<open>str(e)\<close> gives, as CPython 3.11
  words it. The text of an exception is taken to be plain 8-bit text.
\<close>

datatype exn = Exn string string

fun exn_str :: "exn \<Rightarrow> string" where
  "exn_str (Exn c m) = m"

type_synonym byte = "8 word"

text \<open>
  A fragment of the completion stream of \<^verbatim>\<open>invoke_agent\<close>: an event may hold the
  key \<^verbatim>\<open>chunk\<close>, and a chunk may hold the key \<^verbatim>\<open>bytes\<close>. The iterator itself
  may raise between two fragments (\<open>Inl\<close>).
\<close>

datatype chunk = Chunk (chunk_bytes: "byte list option")

datatype stream_event = StreamEvent (event_chunk: "chunk option")

type_synonym completion = "(exn + stream_event) list"

text \<open>
  What one process does to the outside, oldest first: a call of \<^verbatim>\<open>send_message\<close>
  (connection, message), the construction of the connection-management client (its
  endpoint), a call of \<^verbatim>\<open>post_to_connection\<close> (client, connection, message), a call
  of \<^verbatim>\<open>invoke_agent\<close> (agent id, session, text) and an accepted asynchronous
  \<^verbatim>\<open>lambda_client.invoke\<close> (function name, payload).
\<close>

datatype action =
    Sent pyval pyval
  | Built pystr
  | Posted pystr pyval pyval
  | AgentCall pystr pyval pyval
  | Scheduled string pyval

text \<open>
  The module's environment variables, the library functions the module calls and the
  answers of the services. Every service answer may depend on all that the process has
  done before, so any interleaving of successes and failures is an \<open>env\<close>:
  \<open>None\<close> is a call that returns, \<open>Some e\<close> and \<open>Inl e\<close> a call that raises \<open>e\<close>
  (every exception is an \<^verbatim>\<open>Exception\<close>). An \<^verbatim>\<open>invoke_agent\<close> response without
  its \<^verbatim>\<open>completion\<close> is the \<^verbatim>\<open>KeyError\<close> of line 57; a \<^verbatim>\<open>lambda_client.invoke\<close>
  that raises has scheduled nothing. \<^verbatim>\<open>str\<close> of floats and containers
  (\<open>str_of\<close>), \<^verbatim>\<open>json.loads\<close> and \<^verbatim>\<open>bytes.decode\<close> are library functions and
  stay parameters. \<^verbatim>\<open>json.dumps\<close> is total on the values above (it escapes
  surrogates) and the platform parses a payload back to the value that was serialised
  (no string of the event holds a high surrogate followed by a low one, which parsing
  would join), so the trace keeps that value.
\<close>

record env =
  ONBOARDING_AGENT_ARN :: pystr
  PROVISIONING_AGENT_ARN :: pystr
  str_of :: "pyval \<Rightarrow> utf8_text"
  json_loads :: "pystr \<Rightarrow> exn + pyval"
  utf8_decode :: "byte list \<Rightarrow> exn + pystr"
  new_client :: "action list \<Rightarrow> pystr \<Rightarrow> exn option"
  post_to_connection :: "action list \<Rightarrow> pystr \<Rightarrow> pyval \<Rightarrow> pyval \<Rightarrow> exn option"
  invoke_agent :: "action list \<Rightarrow> pystr \<Rightarrow> pyval \<Rightarrow> pyval \<Rightarrow> exn + completion"
  lambda_invoke :: "action list \<Rightarrow> string \<Rightarrow> pyval \<Rightarrow> exn option"

text \<open>
  The module-level variable \<^verbatim>\<open>apigw\<close> (a client is identified with the endpoint it
  was built for) and the trace of the process.
\<close>

record state =
  apigw :: "pystr option"
  trace :: "action list"

record lambda_context =
  function_name :: string

section \<open>The Python operations the module uses\<close>

definition sq :: string where
  "sq = [CHR 0x27]"

fun type_name :: "pyval \<Rightarrow> string" where
  "type_name PNone = ''NoneType''"
| "type_name (PBool b) = ''bool''"
| "type_name (PInt i) = ''int''"
| "type_name (PFloat x) = ''float''"
| "type_name (PStr t) = ''str''"
| "type_name (PList xs) = ''list''"
| "type_name (PDict kvs) = ''dict''"

text \<open>\<^verbatim>\<open>obj.get(key, default)\<close>: only a dictionary has the method.\<close>

fun py_get :: "pyval \<Rightarrow> string \<Rightarrow> pyval \<Rightarrow> exn + pyval" where
  "py_get (PDict kvs) k d = Inr (case map_of kvs (lit k) of Some v \<Rightarrow> v | None \<Rightarrow> d)"
| "py_get v k d =
     Inl (Exn ''AttributeError''
            (sq @ type_name v @ sq @ '' object has no attribute '' @ sq @ ''get'' @ sq))"

text \<open>\<^verbatim>\<open>obj[key]\<close> with a string key.\<close>

fun py_getitem :: "pyval \<Rightarrow> string \<Rightarrow> exn + pyval" where
  "py_getitem (PDict kvs) k =
     (case map_of kvs (lit k) of
        Some v \<Rightarrow> Inr v
      | None \<Rightarrow> Inl (Exn ''KeyError'' (sq @ k @ sq)))"
| "py_getitem (PStr t) k =
     Inl (Exn ''TypeError'' (''string indices must be integers, not '' @ sq @ ''str'' @ sq))"
| "py_getitem (PList xs) k =
     Inl (Exn ''TypeError'' ''list indices must be integers or slices, not str'')"
| "py_getitem v k =
     Inl (Exn ''TypeError'' (sq @ type_name v @ sq @ '' object is not subscriptable''))"

text \<open>\<^verbatim>\<open>key in obj\<close>, used where \<open>obj\<close> is a dictionary.\<close>

fun py_in :: "string \<Rightarrow> pyval \<Rightarrow> bool" where
  "py_in k (PDict kvs) = (map_of kvs (lit k) \<noteq> None)"
| "py_in k _ = False"

text \<open>\<^verbatim>\<open>message[:100]\<close>: strings and lists can be sliced.\<close>

fun slice100 :: "pyval \<Rightarrow> exn + pyval" where
  "slice100 (PStr t) = Inr (PStr (take 100 t))"
| "slice100 (PList xs) = Inr (PList (take 100 xs))"
| "slice100 (PDict kvs) = Inl (Exn ''TypeError'' (''unhashable type: '' @ sq @ ''slice'' @ sq))"
| "slice100 v =
     Inl (Exn ''TypeError'' (sq @ type_name v @ sq @ '' object is not subscriptable''))"

text \<open>Decimal digits of a number.\<close>

function dec :: "nat \<Rightarrow> string" where
  "dec n = (if n < 10 then [''0123456789'' ! n] else dec (n div 10) @ [''0123456789'' ! (n mod 10)])"
  by pat_completeness auto
termination
  by (relation "measure id") auto

definition hex4 :: "nat \<Rightarrow> string" where
  "hex4 c =
     map (\<lambda>d. ''0123456789abcdef'' ! d)
       [c div 4096 mod 16, c div 256 mod 16, c div 16 mod 16, c mod 16]"

text \<open>The interpolation \<^verbatim>\<open>{v}\<close> of an f-string.\<close>

fun fmt :: "env \<Rightarrow> pyval \<Rightarrow> pystr" where
  "fmt env (PStr t) = t"
| "fmt env PNone = lit ''None''"
| "fmt env (PBool b) = lit (if b then ''True'' else ''False'')"
| "fmt env (PInt i) = lit ((if i < 0 then ''-'' else []) @ dec (nat \<bar>i\<bar>))"
| "fmt env v = text_of (str_of env v)"

text \<open>
  \<^verbatim>\<open>print(text)\<close>: the console of the runtime encodes UTF-8 with the strict error
  handler, so a text with a lone surrogate raises \<^verbatim>\<open>UnicodeEncodeError\<close>. The
  exception names the first run of surrogates.
\<close>

definition encode_error :: "pystr \<Rightarrow> string" where
  "encode_error text =
     (let i = length (takeWhile (\<lambda>c. \<not> is_surrogate c) text);
          run = takeWhile is_surrogate (drop i text) in
      sq @ ''utf-8'' @ sq @ '' codec can'' @ sq @ ''t encode '' @
      (case run of
         [c] \<Rightarrow> ''character '' @ sq @ [CHR 0x5C] @ ''u'' @ hex4 c @ sq @ '' in position '' @ dec i
       | _ \<Rightarrow> ''characters in position '' @ dec i @ ''-'' @ dec (i + length run - 1)) @
      '': surrogates not allowed'')"

definition py_print :: "pystr \<Rightarrow> exn + unit" where
  "py_print text =
     (if \<exists>c \<in> set text. is_surrogate c
      then Inl (Exn ''UnicodeEncodeError'' (encode_error text))
      else Inr ())"

text \<open>\<^verbatim>\<open>s.split('/')\<close>: the pieces between the separators, never an empty list.\<close>

fun split_slash :: "pystr \<Rightarrow> pystr list" where
  "split_slash [] = [[]]"
| "split_slash (c # cs) =
     (if c = 47 then [] # split_slash cs
      else (case split_slash cs of
              p # ps \<Rightarrow> (c # p) # ps
            | [] \<Rightarrow> [[c]]))"

text \<open>\<^verbatim>\<open>json.loads(x)\<close>: the argument must be text.\<close>

fun loads :: "env \<Rightarrow> pyval \<Rightarrow> exn + pyval" where
  "loads env (PStr t) = json_loads env t"
| "loads env v =
     Inl (Exn ''TypeError''
            (''the JSON object must be str, bytes or bytearray, not '' @ type_name v))"

definition status :: "int \<Rightarrow> pyval" where
  "status n = PDict [(lit ''statusCode'', PInt n)]"

section \<open>Connection Registry and Notifier\<close>

text \<open>\<^verbatim>\<open>get_apigw_client\<close>, lines 17 to 24.\<close>

definition get_apigw_client :: "env \<Rightarrow> pyval \<Rightarrow> state \<Rightarrow> (exn + pystr) \<times> state" where
  "get_apigw_client env event s =
     (case apigw s of
        Some client \<Rightarrow> (Inr client, s)
      | None \<Rightarrow>
          (case py_getitem event ''requestContext'' of
             Inl e \<Rightarrow> (Inl e, s)
           | Inr rc \<Rightarrow>
          (case py_getitem rc ''domainName'' of
             Inl e \<Rightarrow> (Inl e, s)
           | Inr domain \<Rightarrow>
          (case py_getitem rc ''stage'' of
             Inl e \<Rightarrow> (Inl e, s)
           | Inr stage \<Rightarrow>
               (let endpoint = lit ''https://'' @ fmt env domain @ lit ''/'' @ fmt env stage in
                case new_client env (trace s) endpoint of
                  Some e \<Rightarrow> (Inl e, s)
                | None \<Rightarrow>
                    (Inr endpoint,
                     s\<lparr>apigw := Some endpoint, trace := trace s @ [Built endpoint]\<rparr>))))))"

text \<open>The body of the \<^verbatim>\<open>try\<close> of \<^verbatim>\<open>send_message\<close>, lines 28 to 33.\<close>

definition send_message_try ::
  "env \<Rightarrow> pyval \<Rightarrow> pyval \<Rightarrow> pyval \<Rightarrow> state \<Rightarrow> (exn + bool) \<times> state" where
  "send_message_try env connection_id message event s =
     (case get_apigw_client env event s of
        (Inl e, s1) \<Rightarrow> (Inl e, s1)
      | (Inr client, s1) \<Rightarrow>
          (let s2 = s1\<lparr>trace := trace s1 @ [Posted client connection_id message]\<rparr> in
           case post_to_connection env (trace s1) client connection_id message of
             Some e \<Rightarrow> (Inl e, s2)
           | None \<Rightarrow> (Inr True, s2)))"

text \<open>
  \<^verbatim>\<open>send_message\<close>, lines 26 to 36: the call is entered in the trace, and
  \<^verbatim>\<open>except Exception\<close> prints the exception of the body (line 35) and returns
  \<^verbatim>\<open>False\<close>.
\<close>

definition send_message ::
  "env \<Rightarrow> pyval \<Rightarrow> pyval \<Rightarrow> pyval \<Rightarrow> state \<Rightarrow> (exn + bool) \<times> state" where
  "send_message env connection_id message event s =
     (case send_message_try env connection_id message event
             (s\<lparr>trace := trace s @ [Sent connection_id message]\<rparr>) of
        (Inl e, s1) \<Rightarrow>
          (case py_print (lit ''Error sending message: '' @ lit (exn_str e)) of
             Inl e' \<Rightarrow> (Inl e', s1)
           | Inr _ \<Rightarrow> (Inr False, s1))
      | (Inr b, s1) \<Rightarrow> (Inr b, s1))"

section \<open>Agent Invocation Client\<close>

text \<open>The log lines 40 to 42, before the \<^verbatim>\<open>try\<close>; line 42 slices the message.\<close>

definition announce :: "env \<Rightarrow> pystr \<Rightarrow> pyval \<Rightarrow> pyval \<Rightarrow> exn + unit" where
  "announce env agent_arn message session_id =
     (case py_print (lit ''Calling agent: '' @ agent_arn) of
        Inl e \<Rightarrow> Inl e
      | Inr _ \<Rightarrow>
     (case py_print (lit ''Session: '' @ fmt env session_id) of
        Inl e \<Rightarrow> Inl e
      | Inr _ \<Rightarrow>
     (case slice100 message of
        Inl e \<Rightarrow> Inl e
      | Inr m \<Rightarrow> py_print (lit ''Message: '' @ fmt env m))))"

text \<open>The loop of lines 56 to 61 over the completion stream.\<close>

fun collect :: "env \<Rightarrow> completion \<Rightarrow> pystr \<Rightarrow> exn + pystr" where
  "collect env [] response_text = Inr response_text"
| "collect env (Inl e # rest) response_text = Inl e"
| "collect env (Inr event # rest) response_text =
     (case event_chunk event of
        None \<Rightarrow> collect env rest response_text
      | Some chunk \<Rightarrow>
          (case chunk_bytes chunk of
             None \<Rightarrow> collect env rest response_text
           | Some b \<Rightarrow>
               (case utf8_decode env b of
                  Inl e \<Rightarrow> Inl e
                | Inr t \<Rightarrow> collect env rest (response_text @ t))))"

text \<open>The body of the \<^verbatim>\<open>try\<close> of \<^verbatim>\<open>call_a2a_agent\<close>, lines 48 to 68.\<close>

definition call_a2a_agent_try :: "env \<Rightarrow> pystr \<Rightarrow> pyval \<Rightarrow> pyval \<Rightarrow> state \<Rightarrow> exn + pyval" where
  "call_a2a_agent_try env agent_id message session_id s =
     (case invoke_agent env (trace s) agent_id session_id message of
        Inl e \<Rightarrow> Inl e
      | Inr stream \<Rightarrow>
     (case collect env stream [] of
        Inl e \<Rightarrow> Inl e
      | Inr response_text \<Rightarrow>
     (case py_print (lit ''Response length: '' @ lit (dec (length response_text))) of
        Inl e \<Rightarrow> Inl e
      | Inr _ \<Rightarrow>
          Inr (PDict [(lit ''response'', PStr response_text),
                      (lit ''sessionId'', session_id)]))))"

text \<open>
  \<^verbatim>\<open>call_a2a_agent\<close>, lines 38 to 72. The \<^verbatim>\<open>except\<close> of line 70 prints the
  exception and raises it again.
\<close>

definition call_a2a_agent ::
  "env \<Rightarrow> pystr \<Rightarrow> pyval \<Rightarrow> pyval \<Rightarrow> state \<Rightarrow> (exn + pyval) \<times> state" where
  "call_a2a_agent env agent_arn message session_id s =
     (case announce env agent_arn message session_id of
        Inl e \<Rightarrow> (Inl e, s)
      | Inr _ \<Rightarrow>
          (let agent_id = last (split_slash agent_arn);
               s1 = s\<lparr>trace := trace s @ [AgentCall agent_id session_id message]\<rparr> in
           case call_a2a_agent_try env agent_id message session_id s of
             Inl e \<Rightarrow>
               (case py_print (lit ''Error calling agent: '' @ lit (exn_str e)) of
                  Inl e' \<Rightarrow> (Inl e', s1)
                | Inr _ \<Rightarrow> (Inl e, s1))
           | Inr result \<Rightarrow> (Inr result, s1)))"

section \<open>Relay Dispatcher\<close>

text \<open>Line 97: the agent a request is routed to.\<close>

definition resolve_agent :: "env \<Rightarrow> pyval \<Rightarrow> pystr" where
  "resolve_agent env agent_type =
     (if agent_type = PLit ''onboarding'' then ONBOARDING_AGENT_ARN env
      else PROVISIONING_AGENT_ARN env)"

text \<open>The body of the \<^verbatim>\<open>try\<close> of the asynchronous entry, lines 91 to 106.\<close>

definition async_try ::
  "env \<Rightarrow> pyval \<Rightarrow> pyval \<Rightarrow> pyval \<Rightarrow> pyval \<Rightarrow> pyval \<Rightarrow> pyval \<Rightarrow> state
     \<Rightarrow> (exn + unit) \<times> state" where
  "async_try env agent_type message request_id session_id connection_id original_event s =
     (case send_message env connection_id
             (PDict [(lit ''type'', PLit ''progress''),
                     (lit ''requestId'', request_id),
                     (lit ''message'', PLit ''Agent is thinking...'')]) original_event s of
        (Inl e, s1) \<Rightarrow> (Inl e, s1)
      | (Inr _, s1) \<Rightarrow>
          (let agent_arn = resolve_agent env agent_type in
           case call_a2a_agent env agent_arn message session_id s1 of
             (Inl e, s2) \<Rightarrow> (Inl e, s2)
           | (Inr result, s2) \<Rightarrow>
          (case py_getitem result ''response'' of
             Inl e \<Rightarrow> (Inl e, s2)
           | Inr response \<Rightarrow>
          (case py_getitem result ''sessionId'' of
             Inl e \<Rightarrow> (Inl e, s2)
           | Inr sid \<Rightarrow>
          (case send_message env connection_id
                  (PDict [(lit ''type'', PLit ''response''),
                          (lit ''requestId'', request_id),
                          (lit ''agentType'', agent_type),
                          (lit ''response'', response),
                          (lit ''sessionId'', sid)]) original_event s2 of
             (Inl e, s3) \<Rightarrow> (Inl e, s3)
           | (Inr _, s3) \<Rightarrow> (Inr (), s3))))))"

text \<open>
  The asynchronous entry, lines 80 to 118. The six fields are read and the agent type
  is printed (line 88) before the \<^verbatim>\<open>try\<close>; the \<^verbatim>\<open>except\<close> of line 108 prints
  the exception and sends the error notification. The traceback goes to the error
  stream, which escapes what it cannot encode.
\<close>

definition handle_async :: "env \<Rightarrow> pyval \<Rightarrow> state \<Rightarrow> (exn + pyval) \<times> state" where
  "handle_async env event s =
     (case py_getitem event ''async_processing'' of
        Inl e \<Rightarrow> (Inl e, s)
      | Inr async_event \<Rightarrow>
     (case py_getitem async_event ''agentType'' of
        Inl e \<Rightarrow> (Inl e, s)
      | Inr agent_type \<Rightarrow>
     (case py_getitem async_event ''message'' of
        Inl e \<Rightarrow> (Inl e, s)
      | Inr message \<Rightarrow>
     (case py_getitem async_event ''requestId'' of
        Inl e \<Rightarrow> (Inl e, s)
      | Inr request_id \<Rightarrow>
     (case py_getitem async_event ''sessionId'' of
        Inl e \<Rightarrow> (Inl e, s)
      | Inr session_id \<Rightarrow>
     (case py_getitem async_event ''connectionId'' of
        Inl e \<Rightarrow> (Inl e, s)
      | Inr connection_id \<Rightarrow>
     (case py_getitem async_event ''event'' of
        Inl e \<Rightarrow> (Inl e, s)
      | Inr original_event \<Rightarrow>
     (case py_print (lit ''Async processing: '' @ fmt env agent_type) of
        Inl e \<Rightarrow> (Inl e, s)
      | Inr _ \<Rightarrow>
     (case async_try env agent_type message request_id session_id connection_id
             original_event s of
        (Inr _, s1) \<Rightarrow> (Inr (status 200), s1)
      | (Inl e, s1) \<Rightarrow>
          (case py_print (lit ''Error: '' @ lit (exn_str e)) of
             Inl e' \<Rightarrow> (Inl e', s1)
           | Inr _ \<Rightarrow>
          (case send_message env connection_id
                  (PDict [(lit ''type'', PLit ''error''),
                          (lit ''requestId'', request_id),
                          (lit ''error'', PStr (lit (exn_str e)))]) original_event s1 of
             (Inl e', s2) \<Rightarrow> (Inl e', s2)
           | (Inr _, s2) \<Rightarrow> (Inr (status 200), s2))))))))))))"

text \<open>
  The \<^verbatim>\<open>except\<close> of the synchronous entry, lines 168 to 183. \<open>body\<close> is \<open>None\<close>
  while the variable is unbound; the bare \<^verbatim>\<open>except: pass\<close> of line 180 swallows
  whatever the error report raises.
\<close>

definition on_error ::
  "env \<Rightarrow> pyval \<Rightarrow> pyval \<Rightarrow> pyval \<Rightarrow> pyval option \<Rightarrow> exn \<Rightarrow> state
     \<Rightarrow> (exn + pyval) \<times> state" where
  "on_error env event route_key connection_id body e s =
     (case py_print (lit ''Error: '' @ lit (exn_str e)) of
        Inl e' \<Rightarrow> (Inl e', s)
      | Inr _ \<Rightarrow>
          (if route_key = PLit ''$default'' then
             (case (case body of
                      None \<Rightarrow>
                        Inl (Exn ''UnboundLocalError''
                               (''cannot access local variable '' @ sq @ ''body'' @ sq @
                                '' where it is not associated with a value''))
                    | Some b \<Rightarrow> py_get b ''id'' PNone) of
                Inl _ \<Rightarrow> (Inr (status 500), s)
              | Inr rid \<Rightarrow>
                  (case send_message env connection_id
                          (PDict [(lit ''type'', PLit ''error''),
                                  (lit ''requestId'', rid),
                                  (lit ''error'', PStr (lit (exn_str e)))]) event s of
                     (_, s1) \<Rightarrow> (Inr (status 500), s1)))
           else (Inr (status 500), s)))"

text \<open>Lines 135 to 164, once \<open>body\<close> is bound.\<close>

definition default_try ::
  "env \<Rightarrow> pyval \<Rightarrow> lambda_context \<Rightarrow> pyval \<Rightarrow> pyval \<Rightarrow> state \<Rightarrow> (exn + pyval) \<times> state" where
  "default_try env event ctx connection_id body s =
     (case py_get body ''id'' PNone of
        Inl e \<Rightarrow> (Inl e, s)
      | Inr request_id \<Rightarrow>
     (case py_get body ''agentType'' (PLit ''onboarding'') of
        Inl e \<Rightarrow> (Inl e, s)
      | Inr agent_type \<Rightarrow>
     (case py_get body ''message'' PNone of
        Inl e \<Rightarrow> (Inl e, s)
      | Inr message \<Rightarrow>
     (case py_get body ''sessionId'' (PStr (lit ''session-'' @ fmt env request_id)) of
        Inl e \<Rightarrow> (Inl e, s)
      | Inr session_id \<Rightarrow>
     (case py_print (lit ''Agent: '' @ fmt env agent_type @ lit '', Request: '' @
                     fmt env request_id) of
        Inl e \<Rightarrow> (Inl e, s)
      | Inr _ \<Rightarrow>
     (case send_message env connection_id
             (PDict [(lit ''type'', PLit ''acknowledged''),
                     (lit ''requestId'', request_id),
                     (lit ''agentType'', agent_type)]) event s of
        (Inl e, s1) \<Rightarrow> (Inl e, s1)
      | (Inr _, s1) \<Rightarrow>
          (let payload =
                 PDict [(lit ''async_processing'',
                         PDict [(lit ''agentType'', agent_type),
                                (lit ''message'', message),
                                (lit ''requestId'', request_id),
                                (lit ''sessionId'', session_id),
                                (lit ''connectionId'', connection_id),
                                (lit ''event'', event)])] in
           case lambda_invoke env (trace s1) (function_name ctx) payload of
             Some e \<Rightarrow> (Inl e, s1)
           | None \<Rightarrow>
               (Inr (status 200),
                s1\<lparr>trace := trace s1 @ [Scheduled (function_name ctx) payload]\<rparr>))))))))"

text \<open>The WebSocket routes, lines 121 to 166, with their \<^verbatim>\<open>except\<close>.\<close>

definition handle_routes ::
  "env \<Rightarrow> pyval \<Rightarrow> lambda_context \<Rightarrow> pyval \<Rightarrow> pyval \<Rightarrow> state \<Rightarrow> (exn + pyval) \<times> state" where
  "handle_routes env event ctx route_key connection_id s =
     (if route_key = PLit ''$connect'' then
        (case send_message env connection_id
                (PDict [(lit ''type'', PLit ''connected''),
                        (lit ''message'', PLit ''Connected to Agentic-Architect'')]) event s of
           (Inl e, s1) \<Rightarrow> on_error env event route_key connection_id None e s1
         | (Inr _, s1) \<Rightarrow> (Inr (status 200), s1))
      else if route_key = PLit ''$disconnect'' then
        (case py_print (lit ''Disconnected: '' @ fmt env connection_id) of
           Inl e \<Rightarrow> on_error env event route_key connection_id None e s
         | Inr _ \<Rightarrow> (Inr (status 200), s))
      else if route_key = PLit ''$default'' then
        (case py_get event ''body'' (PLit ''{}'') of
           Inl e \<Rightarrow> on_error env event route_key connection_id None e s
         | Inr raw \<Rightarrow>
        (case loads env raw of
           Inl e \<Rightarrow> on_error env event route_key connection_id None e s
         | Inr body \<Rightarrow>
        (case default_try env event ctx connection_id body s of
           (Inl e, s1) \<Rightarrow> on_error env event route_key connection_id (Some body) e s1
         | (Inr r, s1) \<Rightarrow> (Inr r, s1))))
      else (Inr (status 400), s))"

text \<open>
  \<^verbatim>\<open>lambda_handler\<close>, lines 74 to 183. Lines 75 and 76 read the routing context
  outside every \<^verbatim>\<open>try\<close>.
\<close>

definition lambda_handler ::
  "env \<Rightarrow> pyval \<Rightarrow> lambda_context \<Rightarrow> state \<Rightarrow> (exn + pyval) \<times> state" where
  "lambda_handler env event ctx s =
     (case py_get event ''requestContext'' (PDict []) of
        Inl e \<Rightarrow> (Inl e, s)
      | Inr rc \<Rightarrow>
     (case py_get rc ''routeKey'' PNone of
        Inl e \<Rightarrow> (Inl e, s)
      | Inr route_key \<Rightarrow>
     (case py_get rc ''connectionId'' PNone of
        Inl e \<Rightarrow> (Inl e, s)
      | Inr connection_id \<Rightarrow>
          (if py_in ''async_processing'' event then handle_async env event s
           else handle_routes env event ctx route_key connection_id s))))"

section \<open>Reading a trace\<close>

text \<open>The notifications handed to \<^verbatim>\<open>send_message\<close>, in order, with their connection.\<close>

fun notifications :: "action list \<Rightarrow> (pyval \<times> pyval) list" where
  "notifications [] = []"
| "notifications (Sent c m # tr) = (c, m) # notifications tr"
| "notifications (_ # tr) = notifications tr"

text \<open>
  The calls of \<^verbatim>\<open>post_to_connection\<close>, in order: the client, the connection and
  the message that went out.
\<close>

fun posted :: "action list \<Rightarrow> (pystr \<times> pyval \<times> pyval) list" where
  "posted [] = []"
| "posted (Posted cl c m # tr) = (cl, c, m) # posted tr"
| "posted (_ # tr) = posted tr"


fun built :: "action list \<Rightarrow> pystr list" where
  "built [] = []"
| "built (Built c # tr) = c # built tr"
| "built (_ # tr) = built tr"

fun posted_with :: "action list \<Rightarrow> pystr list" where
  "posted_with [] = []"
| "posted_with (Posted c _ _ # tr) = c # posted_with tr"
| "posted_with (_ # tr) = posted_with tr"

fun agent_calls :: "action list \<Rightarrow> (pystr \<times> pyval \<times> pyval) list" where
  "agent_calls [] = []"
| "agent_calls (AgentCall a sid m # tr) = (a, sid, m) # agent_calls tr"
| "agent_calls (_ # tr) = agent_calls tr"

fun scheduled :: "action list \<Rightarrow> pyval list" where
  "scheduled [] = []"
| "scheduled (Scheduled f p # tr) = p # scheduled tr"
| "scheduled (_ # tr) = scheduled tr"

text \<open>What a run from \<open>s\<close> to \<open>s'\<close> added to the trace.\<close>

definition emitted :: "state \<Rightarrow> state \<Rightarrow> action list" where
  "emitted s s' = drop (length (trace s)) (trace s')"

text \<open>
  The client a call \<^verbatim>\<open>send_message(c, m, event)\<close> made in state \<open>s\<close> gets from
  \<^verbatim>\<open>get_apigw_client\<close>: the cached one, a new one, or the exception that leaves
  the notification unposted.
\<close>

definition client_for :: "env \<Rightarrow> pyval \<Rightarrow> state \<Rightarrow> pyval \<Rightarrow> pyval \<Rightarrow> exn + pystr" where
  "client_for env event s c m =
     fst (get_apigw_client env event (s\<lparr>trace := trace s @ [Sent c m]\<rparr>))"

fun field :: "string \<Rightarrow> pyval \<Rightarrow> pyval option" where
  "field k (PDict kvs) = map_of kvs (lit k)"
| "field k _ = None"

fun is_dict :: "pyval \<Rightarrow> bool" where
  "is_dict (PDict kvs) = True"
| "is_dict _ = False"

text \<open>The value \<^verbatim>\<open>d.get(k, default)\<close> of a dictionary \<open>d\<close>.\<close>

definition get_or :: "pyval \<Rightarrow> string \<Rightarrow> pyval \<Rightarrow> pyval" where
  "get_or d k dflt = (case field k d of Some v \<Rightarrow> v | None \<Rightarrow> dflt)"

text \<open>
  Lines 75 and 76 go through when the event is a dictionary whose
  \<^verbatim>\<open>requestContext\<close>, if there is one, is a dictionary.
\<close>

definition routing_ok :: "pyval \<Rightarrow> bool" where
  "routing_ok event =
     (is_dict event \<and>
      (case field ''requestContext'' event of None \<Rightarrow> True | Some rc \<Rightarrow> is_dict rc))"

definition route_key_of :: "pyval \<Rightarrow> pyval" where
  "route_key_of event = get_or (get_or event ''requestContext'' (PDict [])) ''routeKey'' PNone"

definition connection_id_of :: "pyval \<Rightarrow> pyval" where
  "connection_id_of event =
     get_or (get_or event ''requestContext'' (PDict [])) ''connectionId'' PNone"

subsection \<open>The notification shapes of the interface table\<close>

definition connected_msg :: pyval where
  "connected_msg =
     PDict [(lit ''type'', PLit ''connected''),
            (lit ''message'', PLit ''Connected to Agentic-Architect'')]"

definition acknowledged_msg :: "pyval \<Rightarrow> pyval \<Rightarrow> pyval" where
  "acknowledged_msg request_id agent_type =
     PDict [(lit ''type'', PLit ''acknowledged''), (lit ''requestId'', request_id),
            (lit ''agentType'', agent_type)]"

definition progress_msg :: "pyval \<Rightarrow> pyval" where
  "progress_msg request_id =
     PDict [(lit ''type'', PLit ''progress''), (lit ''requestId'', request_id),
            (lit ''message'', PLit ''Agent is thinking...'')]"

definition response_msg :: "pyval \<Rightarrow> pyval \<Rightarrow> pyval \<Rightarrow> pyval \<Rightarrow> pyval" where
  "response_msg request_id agent_type response session_id =
     PDict [(lit ''type'', PLit ''response''), (lit ''requestId'', request_id),
            (lit ''agentType'', agent_type), (lit ''response'', response),
            (lit ''sessionId'', session_id)]"

definition error_msg :: "pyval \<Rightarrow> exn \<Rightarrow> pyval" where
  "error_msg request_id e =
     PDict [(lit ''type'', PLit ''error''), (lit ''requestId'', request_id),
            (lit ''error'', PStr (lit (exn_str e)))]"

text \<open>The payload of the re-invocation, lines 152 to 161.\<close>

definition async_payload ::
  "pyval \<Rightarrow> pyval \<Rightarrow> pyval \<Rightarrow> pyval \<Rightarrow> pyval \<Rightarrow> pyval \<Rightarrow> pyval" where
  "async_payload agent_type message request_id session_id connection_id event =
     PDict [(lit ''async_processing'',
             PDict [(lit ''agentType'', agent_type), (lit ''message'', message),
                    (lit ''requestId'', request_id), (lit ''sessionId'', session_id),
                    (lit ''connectionId'', connection_id), (lit ''event'', event)])]"

text \<open>The messages of one type among the notifications of a trace.\<close>

definition of_type :: "string \<Rightarrow> (pyval \<times> pyval) list \<Rightarrow> pyval list" where
  "of_type ty ns = filter (\<lambda>m. field ''type'' m = Some (PLit ty)) (map snd ns)"

text \<open>The byte payload a fragment carries, if it carries one.\<close>

definition payload_of :: "stream_event \<Rightarrow> byte list option" where
  "payload_of ev = (case event_chunk ev of None \<Rightarrow> None | Some c \<Rightarrow> chunk_bytes c)"

subsection \<open>One process\<close>

text \<open>
  Line 15: a process starts with \<^verbatim>\<open>apigw = None\<close>. The platform hands it one event
  after the other; the module-level variable lives on between them, also after an
  invocation that raised.
\<close>

definition fresh :: state where
  "fresh = \<lparr>apigw = None, trace = []\<rparr>"

fun run_process :: "env \<Rightarrow> (pyval \<times> lambda_context) list \<Rightarrow> state \<Rightarrow> state" where
  "run_process env [] s = s"
| "run_process env ((event, ctx) # rest) s =
     run_process env rest (snd (lambda_handler env event ctx s))"

text \<open>
  The cache and the trace agree: no client was built while the cache is empty, and
  the cached client is the only one ever built and the only one ever posted with.
\<close>

definition cache_inv :: "state \<Rightarrow> bool" where
  "cache_inv s =
     (case apigw s of
        None \<Rightarrow> built (trace s) = [] \<and> posted_with (trace s) = []
      | Some c \<Rightarrow> built (trace s) = [c] \<and> set (posted_with (trace s)) \<subseteq> {c})"

subsection \<open>A concrete world\<close>

text \<open>
  An environment in which every service answers: one request body parses, the agent
  streams four fragments of which the second and the third carry no payload.
\<close>

definition body_text :: pystr where
  \<open>body_text = lit ''{"id": "r1", "message": "hello"}''\<close>

definition body_dict :: pyval where
  "body_dict = PDict [(lit ''id'', PLit ''r1''), (lit ''message'', PLit ''hello'')]"

definition agent_stream :: completion where
  "agent_stream =
     [Inr (StreamEvent (Some (Chunk (Some [104, 105])))),
      Inr (StreamEvent (Some (Chunk None))),
      Inr (StreamEvent None),
      Inr (StreamEvent (Some (Chunk (Some [33]))))]"

definition world :: env where
  "world =
     \<lparr>ONBOARDING_AGENT_ARN = lit ''arn:aws:bedrock:us-east-1:1:agent/ONB1'',
      PROVISIONING_AGENT_ARN = lit ''arn:aws:bedrock:us-east-1:1:agent/PRV1'',
      str_of = (\<lambda>v. Utf8_text (lit ''?'')),
      json_loads = (\<lambda>t. if t = body_text then Inr body_dict
                         else Inl (Exn ''JSONDecodeError''
                                     ''Expecting value: line 1 column 1 (char 0)'')),
      utf8_decode = (\<lambda>b. if b = [104, 105] then Inr (lit ''hi'')
                          else if b = [33] then Inr (lit ''!'')
                          else Inl (Exn ''UnicodeDecodeError'' ''invalid start byte'')),
      new_client = (\<lambda>tr endpoint. None),
      post_to_connection = (\<lambda>tr client connection_id data. None),
      invoke_agent = (\<lambda>tr agent_id session_id text. Inr agent_stream),
      lambda_invoke = (\<lambda>tr fname payload. None)\<rparr>"

text \<open>The same world with an agent endpoint that times out.\<close>

definition timeout_world :: env where
  "timeout_world =
     world\<lparr>invoke_agent :=
             (\<lambda>tr agent_id session_id text. Inl (Exn ''TimeoutError'' ''timed out''))\<rparr>"

text \<open>The same world with a connection that has gone: every post raises.\<close>

definition closed_world :: env where
  "closed_world =
     world\<lparr>post_to_connection :=
             (\<lambda>tr client connection_id data. Some (Exn ''GoneException'' ''410''))\<rparr>"

definition ctx0 :: lambda_context where
  "ctx0 = \<lparr>function_name = ''relay''\<rparr>"

definition routing :: "string \<Rightarrow> pyval" where
  "routing route =
     PDict [(lit ''routeKey'', PLit route), (lit ''connectionId'', PLit ''c1''),
            (lit ''domainName'', PLit ''ws.example.com''), (lit ''stage'', PLit ''prod'')]"

definition connect_event :: pyval where
  "connect_event = PDict [(lit ''requestContext'', routing ''$connect'')]"

definition disconnect_event :: pyval where
  "disconnect_event = PDict [(lit ''requestContext'', routing ''$disconnect'')]"

definition default_event :: pyval where
  "default_event =
     PDict [(lit ''requestContext'', routing ''$default''), (lit ''body'', PStr body_text)]"

definition async_event :: pyval where
  "async_event =
     async_payload (PLit ''onboarding'') (PLit ''hello'') (PLit ''r1'') (PLit ''session-r1'')
       (PLit ''c1'') default_event"

text \<open>Payloads that name the provisioning agent and an agent nobody knows.\<close>

definition provisioning_event :: pyval where
  "provisioning_event =
     async_payload (PLit ''provisioning'') (PLit ''deploy it'') (PLit ''r2'')
       (PLit ''session-r2'') (PLit ''c1'') default_event"

definition billing_event :: pyval where
  "billing_event =
     async_payload (PLit ''billing'') (PLit ''hello'') (PLit ''r3'') (PLit ''session-r3'')
       (PLit ''c1'') default_event"

text \<open>A later event of the same process with another addressing context.\<close>

definition other_connect_event :: pyval where
  "other_connect_event =
     PDict [(lit ''requestContext'',
             PDict [(lit ''routeKey'', PLit ''$connect''), (lit ''connectionId'', PLit ''c2''),
                    (lit ''domainName'', PLit ''other.example.com''),
                    (lit ''stage'', PLit ''dev'')])]"

text \<open>A marker without its fields.\<close>

definition bare_marker_event :: pyval where
  "bare_marker_event = PDict [(lit ''async_processing'', PDict [])]"

text \<open>
  Events whose routing context names the route and the connection but neither
  \<^verbatim>\<open>domainName\<close> nor \<^verbatim>\<open>stage\<close>, and the payload that carries one of them.
\<close>

definition unaddressed :: "string \<Rightarrow> pyval" where
  "unaddressed route =
     PDict [(lit ''routeKey'', PLit route), (lit ''connectionId'', PLit ''c1'')]"

definition unaddressed_connect_event :: pyval where
  "unaddressed_connect_event = PDict [(lit ''requestContext'', unaddressed ''$connect'')]"

definition unaddressed_default_event :: pyval where
  "unaddressed_default_event =
     PDict [(lit ''requestContext'', unaddressed ''$default''), (lit ''body'', PStr body_text)]"

definition unaddressed_async_event :: pyval where
  "unaddressed_async_event =
     async_payload (PLit ''onboarding'') (PLit ''hello'') (PLit ''r1'') (PLit ''session-r1'')
       (PLit ''c1'') unaddressed_default_event"

text \<open>A disconnect whose connection id is the lone surrogate U+D800.\<close>

definition surrogate_disconnect_event :: pyval where
  "surrogate_disconnect_event =
     PDict [(lit ''requestContext'',
             PDict [(lit ''routeKey'', PLit ''$disconnect''),
                    (lit ''connectionId'', PStr [55296])])]"

text \<open>A payload whose agent type is the lone surrogate U+D800.\<close>

definition surrogate_async_event :: pyval where
  "surrogate_async_event =
     async_payload (PStr [55296]) (PLit ''hello'') (PLit ''r1'') (PLit ''session-r1'')
       (PLit ''c1'') default_event"

section \<open>Literals and the console\<close>

lemma lit_eq_iff [simp]: "lit s = lit t \<longleftrightarrow> s = t"
  by (simp add: lit_def inj_map_eq_map inj_on_def)

lemma lit_append: "lit (s @ t) = lit s @ lit t"
  by (simp add: lit_def)

lemma of_char_below: "(of_char c :: nat) < 256"
proof -
  have "(of_char c :: nat) = of_char c mod 256" by simp
  also have "\<dots> < 256" by (rule mod_less_divisor) simp
  finally show ?thesis .
qed

lemma lit_clean: "c \<in> set (lit s) \<Longrightarrow> \<not> is_surrogate c"
proof -
  assume "c \<in> set (lit s)"
  then obtain x where "c = of_char x" by (auto simp: lit_def)
  with of_char_below [of x] show ?thesis unfolding is_surrogate_def by linarith
qed


lemma py_print_iff: "py_print t = Inr () \<longleftrightarrow> (\<forall>c \<in> set t. \<not> is_surrogate c)"
  by (auto simp: py_print_def)

lemma py_print_lit [simp]: "py_print (lit a @ lit b) = Inr ()"
  by (auto simp: py_print_iff dest: lit_clean)



section \<open>Traces of the Notifier and of the Agent Invocation Client\<close>

lemma notifications_append: "notifications (xs @ ys) = notifications xs @ notifications ys"
  by (induction xs rule: notifications.induct) simp_all

lemma posted_append: "posted (xs @ ys) = posted xs @ posted ys"
  by (induction xs rule: posted.induct) simp_all

lemma built_append: "built (xs @ ys) = built xs @ built ys"
  by (induction xs rule: built.induct) simp_all

lemma posted_with_append: "posted_with (xs @ ys) = posted_with xs @ posted_with ys"
  by (induction xs rule: posted_with.induct) simp_all

lemma agent_calls_append: "agent_calls (xs @ ys) = agent_calls xs @ agent_calls ys"
  by (induction xs rule: agent_calls.induct) simp_all

lemma scheduled_append: "scheduled (xs @ ys) = scheduled xs @ scheduled ys"
  by (induction xs rule: scheduled.induct) simp_all

lemmas trace_append = notifications_append posted_append built_append posted_with_append
  agent_calls_append scheduled_append

lemma emitted_append: "trace s' = trace s @ ext \<Longrightarrow> emitted s s' = ext"
  by (simp add: emitted_def)

lemma get_apigw_client_cached:
  "apigw s = Some c \<Longrightarrow> get_apigw_client env event s = (Inr c, s)"
  by (simp add: get_apigw_client_def)

lemma get_apigw_client_cases:
  assumes "get_apigw_client env event s = (r, s')"
  shows "(s' = s \<and> (\<forall>c. r = Inr c \<longrightarrow> apigw s = Some c)) \<or>
         (\<exists>c. apigw s = None \<and> r = Inr c \<and>
              s' = s\<lparr>apigw := Some c, trace := trace s @ [Built c]\<rparr>)"
  using assms
  by (auto simp: get_apigw_client_def Let_def split: option.splits sum.splits)


lemma send_message_try_trace:
  assumes "send_message_try env c m ev s = (r, s')"
  shows "\<exists>ext. trace s' = trace s @ ext \<and> notifications ext = [] \<and>
               agent_calls ext = [] \<and> scheduled ext = [] \<and>
               posted ext = (case fst (get_apigw_client env ev s) of
                               Inr cl \<Rightarrow> [(cl, c, m)] | Inl e \<Rightarrow> []) \<and>
               apigw s' = (case fst (get_apigw_client env ev s) of
                             Inr cl \<Rightarrow> Some cl | Inl e \<Rightarrow> apigw s)"
proof -
  obtain r1 s1 where g: "get_apigw_client env ev s = (r1, s1)"
    by (cases "get_apigw_client env ev s")
  from get_apigw_client_cases [OF g] assms g show ?thesis
    by (auto simp: send_message_try_def Let_def split: sum.splits option.splits)
qed

lemma send_message_result:
  "\<exists>b s' ext. send_message env c m ev s = (Inr b, s') \<and>
     trace s' = trace s @ Sent c m # ext \<and>
     notifications ext = [] \<and> agent_calls ext = [] \<and> scheduled ext = [] \<and>
     posted ext = (case client_for env ev s c m of Inr cl \<Rightarrow> [(cl, c, m)] | Inl e \<Rightarrow> []) \<and>
     apigw s' = (case client_for env ev s c m of Inr cl \<Rightarrow> Some cl | Inl e \<Rightarrow> apigw s)"
proof -
  let ?s0 = "s\<lparr>trace := trace s @ [Sent c m]\<rparr>"
  obtain r s1 where t: "send_message_try env c m ev ?s0 = (r, s1)"
    by (cases "send_message_try env c m ev ?s0")
  from send_message_try_trace [OF t] obtain ext where
    e: "trace s1 = trace s @ Sent c m # ext" "notifications ext = []"
       "agent_calls ext = []" "scheduled ext = []"
       "posted ext = (case client_for env ev s c m of Inr cl \<Rightarrow> [(cl, c, m)] | Inl e \<Rightarrow> [])"
       "apigw s1 = (case client_for env ev s c m of Inr cl \<Rightarrow> Some cl | Inl e \<Rightarrow> apigw s)"
    by (auto simp: client_for_def split: sum.splits)
  have "\<exists>b. send_message env c m ev s = (Inr b, s1)"
    using t by (cases r) (auto simp: send_message_def)
  with e show ?thesis by blast
qed

lemma call_a2a_agent_result:
  "\<exists>r s' ext. call_a2a_agent env arn m sid s = (r, s') \<and>
     trace s' = trace s @ ext \<and> notifications ext = [] \<and> scheduled ext = [] \<and>
     posted ext = [] \<and> apigw s' = apigw s \<and>
     (\<forall>v. r = Inr v \<longrightarrow>
        (\<exists>t. v = PDict [(lit ''response'', PStr t), (lit ''sessionId'', sid)]))"
  by (auto simp: call_a2a_agent_def call_a2a_agent_try_def Let_def split: sum.splits)

lemma field_getitem: "field k v = Some x \<Longrightarrow> py_getitem v k = Inr x"
  by (cases v) simp_all

lemma getitem_field: "py_getitem v k = Inr x \<Longrightarrow> field k v = Some x"
  by (cases v) (auto split: option.splits)

lemma field_is_dict: "field k v = Some x \<Longrightarrow> is_dict v"
  by (cases v) simp_all

lemma py_get_dict: "is_dict d \<Longrightarrow> py_get d k dflt = Inr (get_or d k dflt)"
  by (cases d) (simp_all add: get_or_def)

text \<open>
  The asynchronous entry on a payload with its six fields whose agent type can be
  printed: the progress send, the agent call, the terminal send.
\<close>

lemma handle_async_run:
  assumes f: "field ''async_processing'' event = Some ae"
    "field ''agentType'' ae = Some agent_type"
    "field ''message'' ae = Some message"
    "field ''requestId'' ae = Some request_id"
    "field ''sessionId'' ae = Some session_id"
    "field ''connectionId'' ae = Some connection_id"
    "field ''event'' ae = Some original_event"
    and pr: "py_print (lit ''Async processing: '' @ fmt env agent_type) = Inr ()"
  shows "\<exists>b s1 r s2 s'.
    send_message env connection_id (progress_msg request_id) original_event s = (Inr b, s1) \<and>
    call_a2a_agent env (resolve_agent env agent_type) message session_id s1 = (r, s2) \<and>
    handle_async env event s = (Inr (status 200), s') \<and>
    notifications (emitted s s') =
      [(connection_id, progress_msg request_id),
       (connection_id,
        case r of
          Inl e \<Rightarrow> error_msg request_id e
        | Inr res \<Rightarrow> response_msg request_id agent_type
                       (get_or res ''response'' PNone) session_id)] \<and>
    posted (emitted s s') =
      (case client_for env original_event s connection_id (progress_msg request_id) of
         Inr cl \<Rightarrow> [(cl, connection_id, progress_msg request_id)] | Inl e \<Rightarrow> []) @
      (case client_for env original_event s2 connection_id
              (case r of
                 Inl e \<Rightarrow> error_msg request_id e
               | Inr res \<Rightarrow> response_msg request_id agent_type
                              (get_or res ''response'' PNone) session_id) of
         Inr cl \<Rightarrow>
           [(cl, connection_id,
             case r of
               Inl e \<Rightarrow> error_msg request_id e
             | Inr res \<Rightarrow> response_msg request_id agent_type
                            (get_or res ''response'' PNone) session_id)]
       | Inl e \<Rightarrow> []) \<and>
    (\<forall>cl. client_for env original_event s connection_id (progress_msg request_id) = Inr cl \<longrightarrow>
       apigw s2 = Some cl) \<and>
    agent_calls (emitted s s') = agent_calls (emitted s1 s2) \<and>
    scheduled (emitted s s') = []"
proof -
  note g = f [THEN field_getitem]
  let ?p = "progress_msg request_id"
  from send_message_result [of env connection_id ?p original_event s]
  obtain b s1 x1 where
    p: "send_message env connection_id ?p original_event s = (Inr b, s1)"
       "trace s1 = trace s @ Sent connection_id ?p # x1"
       "notifications x1 = []" "agent_calls x1 = []" "scheduled x1 = []"
       "posted x1 = (case client_for env original_event s connection_id ?p of
                       Inr cl \<Rightarrow> [(cl, connection_id, ?p)] | Inl e \<Rightarrow> [])"
       "apigw s1 = (case client_for env original_event s connection_id ?p of
                      Inr cl \<Rightarrow> Some cl | Inl e \<Rightarrow> apigw s)"
    by blast
  from call_a2a_agent_result [of env "resolve_agent env agent_type" message session_id s1]
  obtain r s2 x2 where
    c: "call_a2a_agent env (resolve_agent env agent_type) message session_id s1 = (r, s2)"
       "trace s2 = trace s1 @ x2" "notifications x2 = []" "scheduled x2 = []"
       "posted x2 = []" "apigw s2 = apigw s1"
       "\<forall>v. r = Inr v \<longrightarrow>
          (\<exists>t. v = PDict [(lit ''response'', PStr t), (lit ''sessionId'', session_id)])"
    by blast
  let ?t = "case r of Inl e \<Rightarrow> error_msg request_id e
            | Inr res \<Rightarrow> response_msg request_id agent_type
                           (get_or res ''response'' PNone) session_id"
  from send_message_result [of env connection_id ?t original_event s2]
  obtain b3 s3 x3 where
    t: "send_message env connection_id ?t original_event s2 = (Inr b3, s3)"
       "trace s3 = trace s2 @ Sent connection_id ?t # x3"
       "notifications x3 = []" "agent_calls x3 = []" "scheduled x3 = []"
       "posted x3 = (case client_for env original_event s2 connection_id ?t of
                       Inr cl \<Rightarrow> [(cl, connection_id, ?t)] | Inl e \<Rightarrow> [])"
    by blast
  have tr: "trace s3 = trace s @ (Sent connection_id ?p # x1 @ x2 @ Sent connection_id ?t # x3)"
    using p(2) c(2) t(2) by simp
  have h: "handle_async env event s = (Inr (status 200), s3)"
  proof (cases r)
    case (Inl e)
    with p(1) c(1) t(1) pr show ?thesis
      by (simp add: handle_async_def async_try_def g progress_msg_def error_msg_def)
  next
    case (Inr res)
    with c(7) obtain tx where
      res: "res = PDict [(lit ''response'', PStr tx), (lit ''sessionId'', session_id)]" by blast
    with Inr p(1) c(1) t(1) pr show ?thesis
      by (simp add: handle_async_def async_try_def g progress_msg_def response_msg_def
          get_or_def)
  qed
  have e1: "emitted s s3 = Sent connection_id ?p # x1 @ x2 @ Sent connection_id ?t # x3"
    using tr by (rule emitted_append)
  have e2: "emitted s1 s2 = x2"
    using c(2) by (rule emitted_append)
  have ap: "\<forall>cl. client_for env original_event s connection_id ?p = Inr cl \<longrightarrow>
       apigw s2 = Some cl"
    using p(7) c(6) by auto
  show ?thesis
    using p(1) c(1) h p(3-6) c(3-5) t(3-6) ap
    by (simp add: e1 e2 trace_append)
qed

section \<open>Running the model; the routing context\<close>

lemmas world_defs = world_def timeout_world_def closed_world_def ctx0_def routing_def
  connect_event_def disconnect_event_def default_event_def async_event_def
  bare_marker_event_def fresh_def provisioning_event_def billing_event_def
  other_connect_event_def body_text_def body_dict_def agent_stream_def unaddressed_def
  unaddressed_connect_event_def unaddressed_default_event_def unaddressed_async_event_def
  surrogate_disconnect_event_def

lemmas relay_defs = lambda_handler_def handle_routes_def handle_async_def async_try_def
  default_try_def on_error_def send_message_def send_message_try_def get_apigw_client_def
  call_a2a_agent_def call_a2a_agent_try_def announce_def resolve_agent_def status_def
  emitted_def client_for_def

lemmas msg_defs = connected_msg_def acknowledged_msg_def progress_msg_def response_msg_def
  error_msg_def async_payload_def

lemma routing_ok_context:
  "routing_ok event \<Longrightarrow> is_dict (get_or event ''requestContext'' (PDict []))"
  by (auto simp: routing_ok_def get_or_def split: option.splits)

lemma route_key_dict:
  assumes "route_key_of event = PStr k"
  shows "routing_ok event"
  using assms
  by (cases event)
     (auto simp: route_key_of_def routing_ok_def get_or_def split: option.splits
        dest: field_is_dict)

lemma lambda_handler_async:
  assumes "routing_ok event" "py_in ''async_processing'' event"
  shows "lambda_handler env event ctx s = handle_async env event s"
proof -
  have "is_dict event" using assms(1) by (simp add: routing_ok_def)
  with assms routing_ok_context [OF assms(1)] show ?thesis
    by (simp add: lambda_handler_def py_get_dict)
qed

lemma lambda_handler_routes:
  assumes "routing_ok event" "\<not> py_in ''async_processing'' event"
  shows "lambda_handler env event ctx s =
         handle_routes env event ctx (route_key_of event) (connection_id_of event) s"
proof -
  have "is_dict event" using assms(1) by (simp add: routing_ok_def)
  with assms routing_ok_context [OF assms(1)] show ?thesis
    by (simp add: lambda_handler_def py_get_dict route_key_of_def connection_id_of_def)
qed

lemma on_error_default:
  assumes "is_dict body"
  shows "\<exists>b s'.
     on_error env event (PLit ''$default'') cid (Some body) e s = (Inr (status 500), s') \<and>
     send_message env cid (error_msg (get_or body ''id'' PNone) e) event s = (Inr b, s')"
proof -
  from send_message_result [of env cid "error_msg (get_or body ''id'' PNone) e" event s]
  obtain b s' where
    "send_message env cid (error_msg (get_or body ''id'' PNone) e) event s = (Inr b, s')"
    by blast
  then show ?thesis
    using assms by (simp add: on_error_def py_get_dict error_msg_def)
qed

text \<open>
  The \<^verbatim>\<open>$default\<close> route on a body that parses to a dictionary, when line 140 cannot
  print: nothing is acknowledged and nothing is scheduled.
\<close>

lemma default_route_unprintable:
  fixes env :: env and event cid raw body :: pyval
    and ctx :: lambda_context and s :: state
  assumes raw: "py_get event ''body'' (PLit ''{}'') = Inr raw"
    and body: "loads env raw = Inr body" "is_dict body"
  defines "request_id \<equiv> get_or body ''id'' PNone"
    and "agent_type \<equiv> get_or body ''agentType'' (PLit ''onboarding'')"
  assumes pr: "py_print (lit ''Agent: '' @ fmt env agent_type @ lit '', Request: '' @
                         fmt env request_id) = Inl e"
  shows "\<exists>s'. handle_routes env event ctx (PLit ''$default'') cid s = (Inr (status 500), s') \<and>
     notifications (emitted s s') = [(cid, error_msg request_id e)] \<and>
     scheduled (emitted s s') = []"
proof -
  have d: "default_try env event ctx cid body s = (Inl e, s)"
    using pr body(2)
    by (simp add: default_try_def py_get_dict request_id_def agent_type_def)
  let ?m = "error_msg request_id e"
  from send_message_result [of env cid ?m event s]
  obtain b2 s2 x2 where
    m: "send_message env cid ?m event s = (Inr b2, s2)"
       "trace s2 = trace s @ Sent cid ?m # x2"
       "notifications x2 = []" "scheduled x2 = []"
    by blast
  from on_error_default [OF body(2), of env event cid e s] m(1)
  have o: "on_error env event (PLit ''$default'') cid (Some body) e s = (Inr (status 500), s2)"
    by (auto simp: request_id_def)
  have h: "handle_routes env event ctx (PLit ''$default'') cid s = (Inr (status 500), s2)"
    using raw body(1) d o by (simp add: handle_routes_def)
  have "emitted s s2 = Sent cid ?m # x2"
    using m(2) by (rule emitted_append)
  with h m(3,4) show ?thesis by simp
qed

text \<open>
  The same route when line 140 prints: the acknowledgement is handed over and posted
  before \<^verbatim>\<open>lambda_client.invoke\<close> is called; when that call raises, the
  \<^verbatim>\<open>except\<close> reports the error and nothing is scheduled.
\<close>

lemma default_route_run:
  fixes env :: env and event cid raw body :: pyval
    and ctx :: lambda_context and s :: state
  assumes raw: "py_get event ''body'' (PLit ''{}'') = Inr raw"
    and body: "loads env raw = Inr body" "is_dict body"
  defines "request_id \<equiv> get_or body ''id'' PNone"
    and "agent_type \<equiv> get_or body ''agentType'' (PLit ''onboarding'')"
    and "message \<equiv> get_or body ''message'' PNone"
  defines "session_id \<equiv>
      get_or body ''sessionId'' (PStr (lit ''session-'' @ fmt env request_id))"
  defines "payload \<equiv> async_payload agent_type message request_id session_id cid event"
    and "ack \<equiv> acknowledged_msg request_id agent_type"
  assumes pr: "py_print (lit ''Agent: '' @ fmt env agent_type @ lit '', Request: '' @
                         fmt env request_id) = Inr ()"
  shows "\<exists>b s1 s'.
    send_message env cid ack event s = (Inr b, s1) \<and>
    (case lambda_invoke env (trace s1) (function_name ctx) payload of
       None \<Rightarrow>
         handle_routes env event ctx (PLit ''$default'') cid s = (Inr (status 200), s') \<and>
         notifications (emitted s s') = [(cid, ack)] \<and>
         scheduled (emitted s s') = [payload] \<and>
         last (emitted s s') = Scheduled (function_name ctx) payload \<and>
         notifications (butlast (emitted s s')) = [(cid, ack)] \<and>
         posted (butlast (emitted s s')) = posted (emitted s s') \<and>
         posted (emitted s s') =
           (case client_for env event s cid ack of
              Inr cl \<Rightarrow> [(cl, cid, ack)] | Inl x \<Rightarrow> [])
     | Some e \<Rightarrow>
         handle_routes env event ctx (PLit ''$default'') cid s = (Inr (status 500), s') \<and>
         notifications (emitted s s') = [(cid, ack), (cid, error_msg request_id e)] \<and>
         scheduled (emitted s s') = [])"
proof -
  from send_message_result [of env cid ack event s]
  obtain b s1 x1 where
    a: "send_message env cid ack event s = (Inr b, s1)"
       "trace s1 = trace s @ Sent cid ack # x1"
       "notifications x1 = []" "agent_calls x1 = []" "scheduled x1 = []"
       "posted x1 = (case client_for env event s cid ack of
                       Inr cl \<Rightarrow> [(cl, cid, ack)] | Inl x \<Rightarrow> [])"
    by blast
  show ?thesis
  proof (cases "lambda_invoke env (trace s1) (function_name ctx) payload")
    case None
    let ?s' = "s1\<lparr>trace := trace s1 @ [Scheduled (function_name ctx) payload]\<rparr>"
    have d: "default_try env event ctx cid body s = (Inr (status 200), ?s')"
      using a(1) None body(2) pr
      by (simp add: default_try_def py_get_dict request_id_def agent_type_def message_def
          session_id_def payload_def async_payload_def acknowledged_msg_def ack_def)
    have h: "handle_routes env event ctx (PLit ''$default'') cid s = (Inr (status 200), ?s')"
      using raw body(1) d by (simp add: handle_routes_def)
    have "trace ?s' = trace s @ ((Sent cid ack # x1) @ [Scheduled (function_name ctx) payload])"
      using a(2) by simp
    then have e: "emitted s ?s' = (Sent cid ack # x1) @ [Scheduled (function_name ctx) payload]"
      by (rule emitted_append)
    have l: "last (emitted s ?s') = Scheduled (function_name ctx) payload"
      "butlast (emitted s ?s') = Sent cid ack # x1"
      unfolding e by (simp_all only: last_snoc butlast_snoc)
    show ?thesis
      using a(1) None h a(3-6) by (simp add: l) (simp add: e trace_append)
  next
    case (Some e)
    have d: "default_try env event ctx cid body s = (Inl e, s1)"
      using a(1) Some body(2) pr
      by (simp add: default_try_def py_get_dict request_id_def agent_type_def message_def
          session_id_def payload_def async_payload_def acknowledged_msg_def ack_def)
    let ?m = "error_msg request_id e"
    from send_message_result [of env cid ?m event s1]
    obtain b2 s2 x2 where
      m: "send_message env cid ?m event s1 = (Inr b2, s2)"
         "trace s2 = trace s1 @ Sent cid ?m # x2"
         "notifications x2 = []" "agent_calls x2 = []" "scheduled x2 = []"
      by blast
    from on_error_default [OF body(2), of env event cid e s1] m(1)
    have o: "on_error env event (PLit ''$default'') cid (Some body) e s1 = (Inr (status 500), s2)"
      by (auto simp: request_id_def)
    have h: "handle_routes env event ctx (PLit ''$default'') cid s = (Inr (status 500), s2)"
      using raw body(1) d o by (simp add: handle_routes_def)
    have "trace s2 = trace s @ (Sent cid ack # x1 @ Sent cid ?m # x2)"
      using a(2) m(2) by simp
    then have e: "emitted s s2 = Sent cid ack # x1 @ Sent cid ?m # x2"
      by (rule emitted_append)
    show ?thesis
      using a(1) Some h a(3-5) m(3-5) by (simp add: e trace_append)
  qed
qed

section \<open>Connect and disconnect\<close>




section \<open>The life of one request\<close>

lemma py_print_lit1 [simp]: "py_print (lit a) = Inr ()"
  by (auto simp: py_print_iff dest: lit_clean)

lemma lit_take: "take n (lit s) = lit (take n s)"
  by (simp add: lit_def take_map)

lemmas eval_defs = relay_defs world_defs msg_defs Let_def lit_append [symmetric] lit_take

lemma async_payload_routing: "routing_ok (async_payload a m r sid c ev)"
  by (simp add: async_payload_def routing_ok_def)








section \<open>The asynchronous entry\<close>




text \<open>
  Nor does it hold when line 88 cannot print the agent type: the six fields are there,
  and the \<^verbatim>\<open>UnicodeEncodeError\<close> of the print leaves \<^verbatim>\<open>lambda_handler\<close>
  before anything was sent.
\<close>

lemma async_entry_surrogate_raises:
  "routing_ok surrogate_async_event \<and>
   lambda_handler world surrogate_async_event ctx0 fresh =
     (Inl (Exn ''UnicodeEncodeError''
             (encode_error (lit ''Async processing: '' @ [55296]))), fresh) \<and>
   encode_error (lit ''Async processing: '' @ [55296]) =
     [CHR 0x27] @ ''utf-8'' @ [CHR 0x27] @ '' codec can'' @ [CHR 0x27] @ ''t encode character '' @
     [CHR 0x27, CHR 0x5C] @ ''ud800'' @ [CHR 0x27] @
     '' in position 18: surrogates not allowed''"
proof -
  have p: "py_print (lit ''Async processing: '' @ [55296]) =
           Inl (Exn ''UnicodeEncodeError'' (encode_error (lit ''Async processing: '' @ [55296])))"
    by (simp add: py_print_def is_surrogate_def)
  have e: "encode_error (lit ''Async processing: '' @ [55296]) =
     [CHR 0x27] @ ''utf-8'' @ [CHR 0x27] @ '' codec can'' @ [CHR 0x27] @ ''t encode character '' @
     [CHR 0x27, CHR 0x5C] @ ''ud800'' @ [CHR 0x27] @
     '' in position 18: surrogates not allowed''"
    by (simp add: encode_error_def lit_def is_surrogate_def hex4_def sq_def Let_def)
  have r: "routing_ok surrogate_async_event"
    by (simp add: surrogate_async_event_def async_payload_routing)
  have l: "lambda_handler world surrogate_async_event ctx0 fresh =
     (Inl (Exn ''UnicodeEncodeError''
             (encode_error (lit ''Async processing: '' @ [55296]))), fresh)"
    by (simp add: surrogate_async_event_def async_payload_def lambda_handler_def
        handle_async_def p)
  show ?thesis using r l e by simp
qed




section \<open>Agent and session of a request\<close>

lemma emitted_same [simp]: "emitted s s = []"
  by (simp add: emitted_def)

lemma call_a2a_agent_calls:
  "agent_calls (emitted s (snd (call_a2a_agent env arn m sid s))) =
     (if announce env arn m sid = Inr () then [(last (split_slash arn), sid, m)] else [])"
  by (cases "announce env arn m sid")
     (auto simp: call_a2a_agent_def Let_def emitted_def split: sum.splits)

lemma handle_async_calls:
  assumes "field ''async_processing'' event = Some ae"
    and "field ''agentType'' ae = Some agent_type"
    and "field ''message'' ae = Some message"
    and "field ''requestId'' ae = Some request_id"
    and "field ''sessionId'' ae = Some session_id"
    and "field ''connectionId'' ae = Some connection_id"
    and "field ''event'' ae = Some original_event"
  shows "agent_calls (emitted s (snd (handle_async env event s))) =
           (if py_print (lit ''Async processing: '' @ fmt env agent_type) = Inr () \<and>
               announce env (resolve_agent env agent_type) message session_id = Inr ()
            then [(last (split_slash (resolve_agent env agent_type)), session_id, message)]
            else [])"
proof (cases "py_print (lit ''Async processing: '' @ fmt env agent_type)")
  case (Inl e)
  then have "handle_async env event s = (Inl e, s)"
    by (simp add: handle_async_def assms [THEN field_getitem])
  with Inl show ?thesis by simp
next
  case (Inr u)
  from handle_async_run [OF assms, of env s] Inr obtain s1 r s2 s' where
    h: "call_a2a_agent env (resolve_agent env agent_type) message session_id s1 = (r, s2)"
       "handle_async env event s = (Inr (status 200), s')"
       "agent_calls (emitted s s') = agent_calls (emitted s1 s2)"
    by auto
  from call_a2a_agent_calls [of s1 env "resolve_agent env agent_type" message session_id] h Inr
  show ?thesis by simp
qed

text \<open>
  Claim C4. In the asynchronous entry (a payload with its six fields) the agent that
  is invoked is the last segment of the onboarding ARN when \<^verbatim>\<open>agentType\<close> is the
  string \<^verbatim>\<open>onboarding\<close> and the last segment of the provisioning ARN for every
  other value, known or not. It is invoked exactly once when the log lines 88 and 40
  to 42 can print the agent type, the ARN, the session id and the first hundred
  characters of the message; when one of them cannot, no agent is invoked at all.
\<close>

theorem agent_type_routing:
  assumes "routing_ok event"
    and "field ''async_processing'' event = Some ae"
    and "field ''agentType'' ae = Some agent_type"
    and "field ''message'' ae = Some message"
    and "field ''requestId'' ae = Some request_id"
    and "field ''sessionId'' ae = Some session_id"
    and "field ''connectionId'' ae = Some connection_id"
    and "field ''event'' ae = Some original_event"
  shows "resolve_agent env agent_type =
           (if agent_type = PLit ''onboarding'' then ONBOARDING_AGENT_ARN env
            else PROVISIONING_AGENT_ARN env) \<and>
         agent_calls (emitted s (snd (lambda_handler env event ctx s))) =
           (if py_print (lit ''Async processing: '' @ fmt env agent_type) = Inr () \<and>
               announce env (resolve_agent env agent_type) message session_id = Inr ()
            then [(last (split_slash
                          (if agent_type = PLit ''onboarding'' then ONBOARDING_AGENT_ARN env
                           else PROVISIONING_AGENT_ARN env)),
                   session_id, message)]
            else [])"
proof -
  have "py_in ''async_processing'' event"
    using assms(2) by (cases event) simp_all
  with assms(1) have "lambda_handler env event ctx s = handle_async env event s"
    by (rule lambda_handler_async)
  with handle_async_calls [OF assms(2-8), of s env] show ?thesis
    by (simp add: resolve_agent_def)
qed

theorem agent_type_routing_witness:
  "routing_ok async_event \<and> routing_ok provisioning_event \<and> routing_ok billing_event \<and>
   py_print (lit ''Async processing: '' @ fmt world (PLit ''billing'')) = Inr () \<and>
   announce world (resolve_agent world (PLit ''billing'')) (PLit ''hello'')
     (PLit ''session-r3'') = Inr () \<and>
   agent_calls (emitted fresh (snd (lambda_handler world async_event ctx0 fresh))) =
     [(lit ''ONB1'', PLit ''session-r1'', PLit ''hello'')] \<and>
   agent_calls (emitted fresh (snd (lambda_handler world provisioning_event ctx0 fresh))) =
     [(lit ''PRV1'', PLit ''session-r2'', PLit ''deploy it'')] \<and>
   agent_calls (emitted fresh (snd (lambda_handler world billing_event ctx0 fresh))) =
     [(lit ''PRV1'', PLit ''session-r3'', PLit ''hello'')]"
proof -
  have h: "routing_ok async_event" "routing_ok provisioning_event" "routing_ok billing_event"
    by (simp_all add: async_event_def provisioning_event_def billing_event_def
        async_payload_routing)
  have a: "field ''async_processing'' async_event =
      Some (PDict [(lit ''agentType'', PLit ''onboarding''), (lit ''message'', PLit ''hello''),
                   (lit ''requestId'', PLit ''r1''), (lit ''sessionId'', PLit ''session-r1''),
                   (lit ''connectionId'', PLit ''c1''), (lit ''event'', default_event)])"
    by (simp add: async_event_def async_payload_def)
  have p: "field ''async_processing'' provisioning_event =
      Some (PDict [(lit ''agentType'', PLit ''provisioning''),
                   (lit ''message'', PLit ''deploy it''),
                   (lit ''requestId'', PLit ''r2''), (lit ''sessionId'', PLit ''session-r2''),
                   (lit ''connectionId'', PLit ''c1''), (lit ''event'', default_event)])"
    by (simp add: provisioning_event_def async_payload_def)
  have b: "field ''async_processing'' billing_event =
      Some (PDict [(lit ''agentType'', PLit ''billing''), (lit ''message'', PLit ''hello''),
                   (lit ''requestId'', PLit ''r3''), (lit ''sessionId'', PLit ''session-r3''),
                   (lit ''connectionId'', PLit ''c1''), (lit ''event'', default_event)])"
    by (simp add: billing_event_def async_payload_def)
  have q: "announce world (resolve_agent world (PLit ''onboarding'')) (PLit ''hello'')
             (PLit ''session-r1'') = Inr ()"
    "announce world (resolve_agent world (PLit ''provisioning'')) (PLit ''deploy it'')
             (PLit ''session-r2'') = Inr ()"
    "announce world (resolve_agent world (PLit ''billing'')) (PLit ''hello'')
             (PLit ''session-r3'') = Inr ()"
    by (simp_all add: announce_def resolve_agent_def world_def lit_append [symmetric] lit_take)
  have l: "last (split_slash (lit ''arn:aws:bedrock:us-east-1:1:agent/ONB1'')) = lit ''ONB1''"
    "last (split_slash (lit ''arn:aws:bedrock:us-east-1:1:agent/PRV1'')) = lit ''PRV1''"
    by (simp_all add: lit_def)
  show ?thesis
    using agent_type_routing [OF h(1) a, of "PLit ''onboarding''" "PLit ''hello''" "PLit ''r1''"
        "PLit ''session-r1''" "PLit ''c1''" default_event world fresh ctx0]
      agent_type_routing [OF h(2) p, of "PLit ''provisioning''" "PLit ''deploy it''"
        "PLit ''r2''" "PLit ''session-r2''" "PLit ''c1''" default_event world fresh ctx0]
      agent_type_routing [OF h(3) b, of "PLit ''billing''" "PLit ''hello''" "PLit ''r3''"
        "PLit ''session-r3''" "PLit ''c1''" default_event world fresh ctx0]
      h q
    by (simp add: world_def l)
qed

text \<open>
  Claim C5. For a \<^verbatim>\<open>$default\<close> event whose body parses to a dictionary with the
  string \<open>rid\<close> as \<^verbatim>\<open>id\<close> and without \<^verbatim>\<open>sessionId\<close>, the session id handed
  to the re-invocation is \<^verbatim>\<open>session-\<close> followed by \<open>rid\<close>. The derived id mentions
  nothing but the request id: it is the same in every process state, for every
  behaviour of the services and for every other content of the event. (When line 140
  cannot print or \<^verbatim>\<open>lambda_client.invoke\<close> raises, nothing is scheduled and the
  status is 500.)
\<close>

theorem derived_session_id:
  fixes env :: env and event body :: pyval and ctx :: lambda_context and s :: state
  assumes nm: "\<not> py_in ''async_processing'' event"
    and rk: "route_key_of event = PLit ''$default''"
    and body: "loads env (get_or event ''body'' (PLit ''{}'')) = Inr body"
    and rid: "field ''id'' body = Some (PStr rid)"
    and nos: "field ''sessionId'' body = None"
  shows "(fst (lambda_handler env event ctx s) = Inr (status 200) \<longrightarrow>
            scheduled (emitted s (snd (lambda_handler env event ctx s))) =
              [async_payload (get_or body ''agentType'' (PLit ''onboarding''))
                 (get_or body ''message'' PNone) (PStr rid) (PStr (lit ''session-'' @ rid))
                 (connection_id_of event) event]) \<and>
         (fst (lambda_handler env event ctx s) \<noteq> Inr (status 200) \<longrightarrow>
            fst (lambda_handler env event ctx s) = Inr (status 500) \<and>
            scheduled (emitted s (snd (lambda_handler env event ctx s))) = [])"
proof -
  let ?cid = "connection_id_of event"
  let ?at = "get_or body ''agentType'' (PLit ''onboarding'')"
  have ok: "routing_ok event" using rk by (rule route_key_dict)
  then have "is_dict event" by (simp add: routing_ok_def)
  then have raw: "py_get event ''body'' (PLit ''{}'') = Inr (get_or event ''body'' (PLit ''{}''))"
    by (rule py_get_dict)
  have bd: "is_dict body" using rid by (rule field_is_dict)
  have idv: "get_or body ''id'' PNone = PStr rid" using rid by (simp add: get_or_def)
  have sv: "\<And>d. get_or body ''sessionId'' d = d"
    using nos by (simp add: get_or_def)
  have lh: "lambda_handler env event ctx s = handle_routes env event ctx (PLit ''$default'') ?cid s"
    using lambda_handler_routes [OF ok nm, of env ctx s] rk by simp
  have ne: "status 500 \<noteq> status 200" by (simp add: status_def)
  show ?thesis
  proof (cases "py_print (lit ''Agent: '' @ fmt env ?at @ lit '', Request: '' @
                          fmt env (PStr rid))")
    case (Inl e)
    from default_route_unprintable [OF raw body bd, where e = e and cid = ?cid and s = s
        and ctx = ctx, unfolded idv, OF Inl]
    show ?thesis using ne by (auto simp: lh)
  next
    case (Inr u)
    then have pr: "py_print (lit ''Agent: '' @ fmt env ?at @ lit '', Request: '' @
                          fmt env (PStr rid)) = Inr ()"
      by simp
    from default_route_run [OF raw body bd, where cid = ?cid and s = s and ctx = ctx,
        unfolded idv, OF pr]
    show ?thesis
      using ne by (auto simp: lh sv split: option.splits)
  qed
qed

theorem derived_session_id_witness:
  "\<not> py_in ''async_processing'' default_event \<and>
   route_key_of default_event = PLit ''$default'' \<and>
   loads world (get_or default_event ''body'' (PLit ''{}'')) = Inr body_dict \<and>
   field ''id'' body_dict = Some (PLit ''r1'') \<and>
   field ''sessionId'' body_dict = None \<and>
   fst (lambda_handler world default_event ctx0 fresh) = Inr (status 200) \<and>
   scheduled (emitted fresh (snd (lambda_handler world default_event ctx0 fresh))) =
     [async_payload (PLit ''onboarding'') (PLit ''hello'') (PLit ''r1'') (PLit ''session-r1'')
        (PLit ''c1'') default_event]"
proof -
  have h1: "\<not> py_in ''async_processing'' default_event"
    by (simp add: default_event_def)
  have h2: "route_key_of default_event = PLit ''$default''"
    by (simp add: default_event_def routing_def route_key_of_def get_or_def)
  have h3: "loads world (get_or default_event ''body'' (PLit ''{}'')) = Inr body_dict"
    by (simp add: default_event_def get_or_def world_def)
  have h4: "field ''id'' body_dict = Some (PLit ''r1'')"
    by (simp add: body_dict_def)
  have h5: "field ''sessionId'' body_dict = None"
    by (simp add: body_dict_def)
  have st: "fst (lambda_handler world default_event ctx0 fresh) = Inr (status 200)"
    by (simp add: eval_defs)
  have c: "connection_id_of default_event = PLit ''c1''"
    by (simp add: default_event_def routing_def connection_id_of_def get_or_def)
  have g: "get_or body_dict ''agentType'' (PLit ''onboarding'') = PLit ''onboarding''"
    "get_or body_dict ''message'' PNone = PLit ''hello''"
    by (simp_all add: body_dict_def get_or_def)
  show ?thesis
    using derived_session_id [OF h1 h2 h3 h4 h5, of ctx0 fresh] h1 h2 h3 h4 h5 st c g
    by (simp add: lit_append [symmetric])
qed

text \<open>
  Claim C10. For a \<^verbatim>\<open>$default\<close> event whose body parses to a dictionary without
  \<^verbatim>\<open>agentType\<close>, the \<^verbatim>\<open>acknowledged\<close> notification carries the agent type
  \<^verbatim>\<open>onboarding\<close> (there is exactly one when line 140 can print the request id, and
  none when it cannot); the payload of the re-invocation, when one is scheduled,
  carries it too, and the re-invocation (in any process) invokes the onboarding agent
  when its log lines can print, and no agent when they cannot.
\<close>

theorem missing_agent_type:
  fixes env env' :: env and event body :: pyval and ctx ctx' :: lambda_context
    and s t :: state
  assumes nm: "\<not> py_in ''async_processing'' event"
    and rk: "route_key_of event = PLit ''$default''"
    and body: "loads env (get_or event ''body'' (PLit ''{}'')) = Inr body"
    and bd: "is_dict body"
    and noa: "field ''agentType'' body = None"
  defines "rid \<equiv> get_or body ''id'' PNone"
    and "msg \<equiv> get_or body ''message'' PNone"
  defines "sid \<equiv> get_or body ''sessionId'' (PStr (lit ''session-'' @ fmt env rid))"
  shows "of_type ''acknowledged''
           (notifications (emitted s (snd (lambda_handler env event ctx s)))) =
           (if py_print (lit ''Agent: '' @ fmt env (PLit ''onboarding'') @ lit '', Request: '' @
                         fmt env rid) = Inr ()
            then [acknowledged_msg rid (PLit ''onboarding'')] else []) \<and>
         (\<forall>payload. scheduled (emitted s (snd (lambda_handler env event ctx s))) = [payload] \<longrightarrow>
            field ''agentType'' (get_or payload ''async_processing'' PNone) =
              Some (PLit ''onboarding'') \<and>
            agent_calls (emitted t (snd (lambda_handler env' payload ctx' t))) =
              (if announce env' (ONBOARDING_AGENT_ARN env') msg sid = Inr ()
               then [(last (split_slash (ONBOARDING_AGENT_ARN env')), sid, msg)] else []))"
proof -
  let ?cid = "connection_id_of event"
  let ?at = "PLit ''onboarding''"
  let ?p = "async_payload ?at msg rid sid ?cid event"
  let ?s' = "snd (lambda_handler env event ctx s)"
  let ?line = "lit ''Agent: '' @ fmt env ?at @ lit '', Request: '' @ fmt env rid"
  have ok: "routing_ok event" using rk by (rule route_key_dict)
  then have "is_dict event" by (simp add: routing_ok_def)
  then have raw: "py_get event ''body'' (PLit ''{}'') = Inr (get_or event ''body'' (PLit ''{}''))"
    by (rule py_get_dict)
  have av: "get_or body ''agentType'' (PLit ''onboarding'') = PLit ''onboarding''"
    using noa by (simp add: get_or_def)
  have lh: "lambda_handler env event ctx s = handle_routes env event ctx (PLit ''$default'') ?cid s"
    using lambda_handler_routes [OF ok nm, of env ctx s] rk by simp
  have ack: "of_type ''acknowledged'' (notifications (emitted s ?s')) =
             (if py_print ?line = Inr () then [acknowledged_msg rid ?at] else [])"
    and sch: "scheduled (emitted s ?s') = [] \<or> scheduled (emitted s ?s') = [?p]"
  proof -
    show "of_type ''acknowledged'' (notifications (emitted s ?s')) =
             (if py_print ?line = Inr () then [acknowledged_msg rid ?at] else [])"
    proof (cases "py_print ?line")
      case (Inl e)
      from default_route_unprintable [OF raw body bd, where e = e and cid = ?cid and s = s
          and ctx = ctx, unfolded av, folded rid_def, OF Inl] Inl
      show ?thesis
        by (auto simp: lh of_type_def error_msg_def)
    next
      case (Inr u)
      then have pr: "py_print ?line = Inr ()" by simp
      from default_route_run [OF raw body bd, where cid = ?cid and s = s and ctx = ctx,
          unfolded av, folded rid_def, OF pr] pr
      show ?thesis
        by (auto simp: lh of_type_def acknowledged_msg_def error_msg_def split: option.splits)
    qed
    show "scheduled (emitted s ?s') = [] \<or> scheduled (emitted s ?s') = [?p]"
    proof (cases "py_print ?line")
      case (Inl e)
      from default_route_unprintable [OF raw body bd, where e = e and cid = ?cid and s = s
          and ctx = ctx, unfolded av, folded rid_def, OF Inl]
      show ?thesis by (auto simp: lh)
    next
      case (Inr u)
      then have pr: "py_print ?line = Inr ()" by simp
      from default_route_run [OF raw body bd, where cid = ?cid and s = s and ctx = ctx,
          unfolded av, folded rid_def msg_def, folded sid_def, OF pr]
      show ?thesis
        by (auto simp: lh split: option.splits)
    qed
  qed
  have fa: "field ''agentType'' (get_or ?p ''async_processing'' PNone) = Some ?at"
    by (simp add: async_payload_def get_or_def)
  have calls: "agent_calls (emitted t (snd (lambda_handler env' ?p ctx' t))) =
              (if announce env' (ONBOARDING_AGENT_ARN env') msg sid = Inr ()
               then [(last (split_slash (ONBOARDING_AGENT_ARN env')), sid, msg)] else [])"
  proof -
    have mk: "py_in ''async_processing'' ?p"
      by (simp add: async_payload_def)
    have la: "lambda_handler env' ?p ctx' t = handle_async env' ?p t"
      using async_payload_routing mk by (rule lambda_handler_async)
    have "agent_calls (emitted t (snd (handle_async env' ?p t))) =
           (if py_print (lit ''Async processing: '' @ fmt env' ?at) = Inr () \<and>
               announce env' (resolve_agent env' ?at) msg sid = Inr ()
            then [(last (split_slash (resolve_agent env' ?at)), sid, msg)]
            else [])"
      by (rule handle_async_calls [where ae = "PDict [(lit ''agentType'', ?at),
                    (lit ''message'', msg), (lit ''requestId'', rid), (lit ''sessionId'', sid),
                    (lit ''connectionId'', ?cid), (lit ''event'', event)]"])
         (simp_all add: async_payload_def)
    then show ?thesis
      unfolding la by (simp add: resolve_agent_def)
  qed
  show ?thesis
    using ack sch fa calls by auto
qed

theorem missing_agent_type_witness:
  "\<not> py_in ''async_processing'' default_event \<and>
   route_key_of default_event = PLit ''$default'' \<and>
   loads world (get_or default_event ''body'' (PLit ''{}'')) = Inr body_dict \<and>
   is_dict body_dict \<and> field ''agentType'' body_dict = None \<and>
   scheduled (emitted fresh (snd (lambda_handler world default_event ctx0 fresh))) =
     [async_event] \<and>
   of_type ''acknowledged''
     (notifications (emitted fresh (snd (lambda_handler world default_event ctx0 fresh)))) =
     [acknowledged_msg (PLit ''r1'') (PLit ''onboarding'')] \<and>
   field ''agentType'' (get_or async_event ''async_processing'' PNone) =
     Some (PLit ''onboarding'') \<and>
   agent_calls (emitted fresh (snd (lambda_handler world async_event ctx0 fresh))) =
     [(lit ''ONB1'', PLit ''session-r1'', PLit ''hello'')]"
proof -
  have h1: "\<not> py_in ''async_processing'' default_event"
    by (simp add: default_event_def)
  have h2: "route_key_of default_event = PLit ''$default''"
    by (simp add: default_event_def routing_def route_key_of_def get_or_def)
  have h3: "loads world (get_or default_event ''body'' (PLit ''{}'')) = Inr body_dict"
    by (simp add: default_event_def get_or_def world_def)
  have h4: "is_dict body_dict"
    by (simp add: body_dict_def)
  have h5: "field ''agentType'' body_dict = None"
    by (simp add: body_dict_def)
  have h6: "scheduled (emitted fresh (snd (lambda_handler world default_event ctx0 fresh))) =
     [async_event]"
    by (simp add: eval_defs)
  have g: "get_or body_dict ''id'' PNone = PLit ''r1''"
    "get_or body_dict ''message'' PNone = PLit ''hello''"
    "get_or body_dict ''sessionId'' (PStr (lit ''session-'' @ fmt world (PLit ''r1''))) =
       PLit ''session-r1''"
    "last (split_slash (ONBOARDING_AGENT_ARN world)) = lit ''ONB1''"
    by (simp_all add: body_dict_def get_or_def world_def lit_append [symmetric])
       (simp add: lit_def)
  have q: "announce world (ONBOARDING_AGENT_ARN world) (PLit ''hello'') (PLit ''session-r1'') =
           Inr ()"
    by (simp add: announce_def world_def lit_append [symmetric] lit_take)
  show ?thesis
    using missing_agent_type [OF h1 h2 h3 h4 h5, where env' = world and ctx' = ctx0
        and t = fresh and ctx = ctx0 and s = fresh, unfolded g]
      h1 h2 h3 h4 h5 h6 q
    by (simp add: lit_append [symmetric])
qed

section \<open>The collected response\<close>

lemma collect_event:
  "collect env (Inr ev # rest) acc =
     (case payload_of ev of
        None \<Rightarrow> collect env rest acc
      | Some b \<Rightarrow>
          (case utf8_decode env b of
             Inl e \<Rightarrow> Inl e
           | Inr t \<Rightarrow> collect env rest (acc @ t)))"
  by (simp add: payload_of_def split: option.splits)

lemma map_filter_Cons:
  "List.map_filter f (x # xs) =
     (case f x of None \<Rightarrow> List.map_filter f xs | Some y \<Rightarrow> y # List.map_filter f xs)"
  by (simp add: List.map_filter_simps)

lemma collect_sound:
  "collect env stream acc = Inr t \<Longrightarrow>
   \<exists>evs texts. stream = map Inr evs \<and>
     map (utf8_decode env) (List.map_filter payload_of evs) = map Inr texts \<and>
     t = acc @ concat texts"
proof (induction stream arbitrary: acc)
  case Nil
  then have "[] = map Inr ([] :: stream_event list) \<and>
     map (utf8_decode env) (List.map_filter payload_of []) = map Inr [] \<and> t = acc @ concat []"
    by (simp add: List.map_filter_simps)
  then show ?case by blast
next
  case (Cons x xs)
  show ?case
  proof (cases x)
    case (Inl e)
    with Cons.prems show ?thesis by simp
  next
    case (Inr ev)
    show ?thesis
    proof (cases "payload_of ev")
      case None
      with Cons.prems Inr have "collect env xs acc = Inr t"
        by (simp add: collect_event del: collect.simps(3))
      from Cons.IH [OF this] obtain evs texts where
        h: "xs = map Inr evs"
           "map (utf8_decode env) (List.map_filter payload_of evs) = map Inr texts"
           "t = acc @ concat texts"
        by blast
      have "x # xs = map Inr (ev # evs) \<and>
        map (utf8_decode env) (List.map_filter payload_of (ev # evs)) = map Inr texts \<and>
        t = acc @ concat texts"
        using h Inr None by (simp add: map_filter_Cons)
      then show ?thesis by (intro exI)
    next
      case (Some b)
      show ?thesis
      proof (cases "utf8_decode env b")
        case (Inl e)
        with Cons.prems Inr Some show ?thesis
          by (simp add: collect_event del: collect.simps(3))
      next
        case d: (Inr tx)
        with Cons.prems Inr Some have "collect env xs (acc @ tx) = Inr t"
          by (simp add: collect_event del: collect.simps(3))
        from Cons.IH [OF this] obtain evs texts where
          h: "xs = map Inr evs"
             "map (utf8_decode env) (List.map_filter payload_of evs) = map Inr texts"
             "t = (acc @ tx) @ concat texts"
          by blast
        have "x # xs = map Inr (ev # evs) \<and>
          map (utf8_decode env) (List.map_filter payload_of (ev # evs)) = map Inr (tx # texts) \<and>
          t = acc @ concat (tx # texts)"
          using h Inr Some d by (simp add: map_filter_Cons)
        then show ?thesis by (intro exI)
      qed
    qed
  qed
qed

lemma collect_complete:
  "map (utf8_decode env) (List.map_filter payload_of evs) = map Inr texts \<Longrightarrow>
   collect env (map Inr evs) acc = Inr (acc @ concat texts)"
proof (induction evs arbitrary: acc texts)
  case Nil
  then show ?case by (simp add: List.map_filter_simps)
next
  case (Cons ev evs)
  show ?case
  proof (cases "payload_of ev")
    case None
    with Cons.prems have
      "map (utf8_decode env) (List.map_filter payload_of evs) = map Inr texts"
      by (simp add: map_filter_Cons)
    from Cons.IH [OF this] None show ?thesis
      by (simp add: collect_event del: collect.simps(3))
  next
    case (Some b)
    with Cons.prems obtain tx rest where
      t: "texts = tx # rest" "utf8_decode env b = Inr tx"
         "map (utf8_decode env) (List.map_filter payload_of evs) = map Inr rest"
      by (cases texts) (auto simp: map_filter_Cons)
    from Cons.IH [OF t(3), of "acc @ tx"] Some t(1,2) show ?thesis
      by (simp add: collect_event del: collect.simps(3))
  qed
qed

lemma announce_iff:
  "announce env agent_arn message session_id = Inr () \<longleftrightarrow>
   py_print (lit ''Calling agent: '' @ agent_arn) = Inr () \<and>
   py_print (lit ''Session: '' @ fmt env session_id) = Inr () \<and>
   (\<exists>x. slice100 message = Inr x \<and> py_print (lit ''Message: '' @ fmt env x) = Inr ())"
  by (auto simp: announce_def split: sum.splits)

lemma call_a2a_agent_try_iff:
  "call_a2a_agent_try env agent_id message session_id s = Inr v \<longleftrightarrow>
   (\<exists>evs texts.
      invoke_agent env (trace s) agent_id session_id message = Inr (map Inr evs) \<and>
      map (utf8_decode env) (List.map_filter payload_of evs) = map Inr texts \<and>
      v = PDict [(lit ''response'', PStr (concat texts)), (lit ''sessionId'', session_id)])"
proof
  assume "call_a2a_agent_try env agent_id message session_id s = Inr v"
  then obtain stream tx where
    h: "invoke_agent env (trace s) agent_id session_id message = Inr stream"
       "collect env stream [] = Inr tx"
       "v = PDict [(lit ''response'', PStr tx), (lit ''sessionId'', session_id)]"
    by (auto simp: call_a2a_agent_try_def split: sum.splits)
  from collect_sound [OF h(2)] obtain evs texts where
    "stream = map Inr evs"
    "map (utf8_decode env) (List.map_filter payload_of evs) = map Inr texts"
    "tx = concat texts"
    by auto
  with h show "\<exists>evs texts.
      invoke_agent env (trace s) agent_id session_id message = Inr (map Inr evs) \<and>
      map (utf8_decode env) (List.map_filter payload_of evs) = map Inr texts \<and>
      v = PDict [(lit ''response'', PStr (concat texts)), (lit ''sessionId'', session_id)]"
    by blast
next
  assume "\<exists>evs texts.
      invoke_agent env (trace s) agent_id session_id message = Inr (map Inr evs) \<and>
      map (utf8_decode env) (List.map_filter payload_of evs) = map Inr texts \<and>
      v = PDict [(lit ''response'', PStr (concat texts)), (lit ''sessionId'', session_id)]"
  then obtain evs texts where
    h: "invoke_agent env (trace s) agent_id session_id message = Inr (map Inr evs)"
       "map (utf8_decode env) (List.map_filter payload_of evs) = map Inr texts"
       "v = PDict [(lit ''response'', PStr (concat texts)), (lit ''sessionId'', session_id)]"
    by blast
  from collect_complete [OF h(2), of "[]"] h(1,3)
  show "call_a2a_agent_try env agent_id message session_id s = Inr v"
    by (simp add: call_a2a_agent_try_def)
qed

text \<open>
  Claim C6. \<^verbatim>\<open>call_a2a_agent\<close> returns a result exactly when its log lines 40 to
  42 can print (the message can be sliced for the last of them), the invocation
  delivers a stream of fragments without raising and every payload decodes. The result
  is then the dictionary of the concatenation, in delivery order, of the decoded
  payloads of the fragments that carry a chunk with bytes (the others are skipped) and
  of the session id it was given.
\<close>

theorem call_a2a_agent_result_text:
  "(\<exists>s'. call_a2a_agent env agent_arn message session_id s = (Inr v, s')) \<longleftrightarrow>
   py_print (lit ''Calling agent: '' @ agent_arn) = Inr () \<and>
   py_print (lit ''Session: '' @ fmt env session_id) = Inr () \<and>
   (\<exists>x. slice100 message = Inr x \<and> py_print (lit ''Message: '' @ fmt env x) = Inr ()) \<and>
   (\<exists>evs texts.
      invoke_agent env (trace s) (last (split_slash agent_arn)) session_id message =
        Inr (map Inr evs) \<and>
      map (utf8_decode env) (List.map_filter payload_of evs) = map Inr texts \<and>
      v = PDict [(lit ''response'', PStr (concat texts)), (lit ''sessionId'', session_id)])"
proof -
  have "(\<exists>s'. call_a2a_agent env agent_arn message session_id s = (Inr v, s')) \<longleftrightarrow>
        announce env agent_arn message session_id = Inr () \<and>
        call_a2a_agent_try env (last (split_slash agent_arn)) message session_id s = Inr v"
    by (cases "announce env agent_arn message session_id")
       (auto simp: call_a2a_agent_def Let_def split: sum.splits)
  then show ?thesis
    unfolding announce_iff call_a2a_agent_try_iff by blast
qed

theorem call_a2a_agent_result_text_witness:
  "py_print (lit ''Calling agent: '' @ ONBOARDING_AGENT_ARN world) = Inr () \<and>
   py_print (lit ''Session: '' @ fmt world (PLit ''session-r1'')) = Inr () \<and>
   slice100 (PLit ''hello'') = Inr (PLit ''hello'') \<and>
   py_print (lit ''Message: '' @ fmt world (PLit ''hello'')) = Inr () \<and>
   invoke_agent world (trace fresh) (last (split_slash (ONBOARDING_AGENT_ARN world)))
     (PLit ''session-r1'') (PLit ''hello'') =
     Inr (map Inr [StreamEvent (Some (Chunk (Some [104, 105]))), StreamEvent (Some (Chunk None)),
                   StreamEvent None, StreamEvent (Some (Chunk (Some [33])))]) \<and>
   map (utf8_decode world)
     (List.map_filter payload_of
        [StreamEvent (Some (Chunk (Some [104, 105]))), StreamEvent (Some (Chunk None)),
         StreamEvent None, StreamEvent (Some (Chunk (Some [33])))]) =
     map Inr [lit ''hi'', lit ''!''] \<and>
   (\<exists>s'. call_a2a_agent world (ONBOARDING_AGENT_ARN world) (PLit ''hello'')
           (PLit ''session-r1'') fresh =
         (Inr (PDict [(lit ''response'', PLit ''hi!''), (lit ''sessionId'', PLit ''session-r1'')]),
          s'))"
proof -
  let ?evs = "[StreamEvent (Some (Chunk (Some [104, 105]))), StreamEvent (Some (Chunk None)),
               StreamEvent None, StreamEvent (Some (Chunk (Some [33])))]"
  have h0: "py_print (lit ''Calling agent: '' @ ONBOARDING_AGENT_ARN world) = Inr ()"
    "py_print (lit ''Session: '' @ fmt world (PLit ''session-r1'')) = Inr ()"
    "py_print (lit ''Message: '' @ fmt world (PLit ''hello'')) = Inr ()"
    by (simp_all add: world_def)
  have h1: "slice100 (PLit ''hello'') = Inr (PLit ''hello'')"
    by (simp add: lit_take)
  have h2: "invoke_agent world (trace fresh) (last (split_slash (ONBOARDING_AGENT_ARN world)))
     (PLit ''session-r1'') (PLit ''hello'') = Inr (map Inr ?evs)"
    by (simp add: world_def agent_stream_def)
  have h3: "map (utf8_decode world) (List.map_filter payload_of ?evs) =
            map Inr [lit ''hi'', lit ''!'']"
    by (simp add: world_def map_filter_Cons payload_of_def List.map_filter_simps)
  have "\<exists>s'. call_a2a_agent world (ONBOARDING_AGENT_ARN world) (PLit ''hello'')
           (PLit ''session-r1'') fresh =
         (Inr (PDict [(lit ''response'', PStr (concat [lit ''hi'', lit ''!''])),
                      (lit ''sessionId'', PLit ''session-r1'')]), s')"
    using call_a2a_agent_result_text [of world "ONBOARDING_AGENT_ARN world" "PLit ''hello''"
        "PLit ''session-r1''" fresh
        "PDict [(lit ''response'', PStr (concat [lit ''hi'', lit ''!''])),
                (lit ''sessionId'', PLit ''session-r1'')]"]
      h0 h1 h2 h3
    by blast
  then show ?thesis
    using h0 h1 h2 h3 by (simp add: lit_append [symmetric])
qed

section \<open>What can leave the handler\<close>









section \<open>The cached client\<close>

lemma cache_inv_get:
  assumes "get_apigw_client env event s = (r, s')" "cache_inv s"
  shows "cache_inv s' \<and> (\<forall>c. r = Inr c \<longrightarrow> apigw s' = Some c)"
  using get_apigw_client_cases [OF assms(1)] assms(2)
  by (auto simp: cache_inv_def trace_append split: option.splits)

lemma cache_inv_sent: "cache_inv s \<Longrightarrow> cache_inv (s\<lparr>trace := trace s @ [Sent c m]\<rparr>)"
  by (simp add: cache_inv_def trace_append split: option.splits)

lemma cache_inv_scheduled:
  "cache_inv s \<Longrightarrow> cache_inv (s\<lparr>trace := trace s @ [Scheduled f p]\<rparr>)"
  by (simp add: cache_inv_def trace_append split: option.splits)

lemma cache_inv_try:
  assumes "send_message_try env c m ev s = (r, s')" "cache_inv s"
  shows "cache_inv s'"
proof -
  obtain r1 s1 where g: "get_apigw_client env ev s = (r1, s1)"
    by (cases "get_apigw_client env ev s")
  from cache_inv_get [OF g assms(2)] assms(1) g show ?thesis
    by (auto simp: send_message_try_def Let_def cache_inv_def trace_append
        split: sum.splits option.splits)
qed

lemma cache_inv_send:
  assumes "send_message env c m ev s = (r, s')" "cache_inv s"
  shows "cache_inv s'"
  using assms cache_inv_try [OF _ cache_inv_sent [OF assms(2)]]
  by (auto simp: send_message_def split: sum.splits prod.splits)

lemma cache_inv_call:
  assumes "call_a2a_agent env arn m sid s = (r, s')" "cache_inv s"
  shows "cache_inv s'"
  using assms
  by (auto simp: call_a2a_agent_def Let_def cache_inv_def trace_append
      split: sum.splits option.splits)

lemma cache_inv_async_try:
  assumes "async_try env a m rid sid c ev s = (r, s')" "cache_inv s"
  shows "cache_inv s'"
  using assms
  by (auto simp: async_try_def Let_def split: sum.splits prod.splits
      dest: cache_inv_send cache_inv_call)

lemma cache_inv_async:
  assumes "handle_async env event s = (r, s')" "cache_inv s"
  shows "cache_inv s'"
  using assms
  by (auto simp: handle_async_def split: sum.splits prod.splits
      dest: cache_inv_send cache_inv_async_try)

lemma cache_inv_on_error:
  assumes "on_error env event rk c body e s = (r, s')" "cache_inv s"
  shows "cache_inv s'"
  using assms
  by (auto simp: on_error_def split: sum.splits prod.splits option.splits if_splits
      dest: cache_inv_send)

lemma cache_inv_default_try:
  assumes "default_try env event ctx c body s = (r, s')" "cache_inv s"
  shows "cache_inv s'"
  using assms
  by (auto simp: default_try_def Let_def split: sum.splits prod.splits option.splits
      dest: cache_inv_send intro: cache_inv_scheduled)

lemma cache_inv_routes:
  assumes "handle_routes env event ctx rk c s = (r, s')" "cache_inv s"
  shows "cache_inv s'"
  using assms
  by (auto simp: handle_routes_def split: sum.splits prod.splits if_splits
      dest: cache_inv_send cache_inv_default_try cache_inv_on_error)

lemma cache_inv_handler:
  assumes "cache_inv s"
  shows "cache_inv (snd (lambda_handler env event ctx s))"
proof -
  obtain r s' where l: "lambda_handler env event ctx s = (r, s')"
    by (cases "lambda_handler env event ctx s")
  then have "cache_inv s'"
    using assms
    by (auto simp: lambda_handler_def split: sum.splits if_splits
        dest: cache_inv_async cache_inv_routes)
  with l show ?thesis by simp
qed

lemma cache_inv_process: "cache_inv s \<Longrightarrow> cache_inv (run_process env evs s)"
  by (induction evs arbitrary: s) (auto simp: cache_inv_handler)

lemma cache_inv_fresh: "cache_inv fresh"
  by (simp add: cache_inv_def fresh_def)

text \<open>
  Claim C8. In a process that starts with an empty cache and handles any sequence of
  events, the connection-management client is built at most once, and every
  \<^verbatim>\<open>post_to_connection\<close> of the process uses that one client. \<^verbatim>\<open>get_apigw_client\<close>
  returns the cached client unchanged, whatever the event, as soon as there is one; it
  changes the process state only while the cache is empty, and then it builds the
  client for \<^verbatim>\<open>https://{domainName}/{stage}\<close> of the event at hand and caches it.
\<close>

theorem client_built_once:
  "length (built (trace (run_process env evs fresh))) \<le> 1 \<and>
   set (posted_with (trace (run_process env evs fresh))) \<subseteq>
     set (built (trace (run_process env evs fresh))) \<and>
   (\<forall>c. apigw s = Some c \<longrightarrow> get_apigw_client env event s = (Inr c, s)) \<and>
   (snd (get_apigw_client env event s) \<noteq> s \<longrightarrow>
      apigw s = None \<and>
      (\<exists>rc domain stage.
         field ''requestContext'' event = Some rc \<and>
         field ''domainName'' rc = Some domain \<and> field ''stage'' rc = Some stage \<and>
         get_apigw_client env event s =
           (Inr (lit ''https://'' @ fmt env domain @ lit ''/'' @ fmt env stage),
            s\<lparr>apigw := Some (lit ''https://'' @ fmt env domain @ lit ''/'' @ fmt env stage),
              trace := trace s @
                [Built (lit ''https://'' @ fmt env domain @ lit ''/'' @ fmt env stage)]\<rparr>)))"
proof -
  have "cache_inv (run_process env evs fresh)"
    using cache_inv_fresh by (rule cache_inv_process)
  then have a: "length (built (trace (run_process env evs fresh))) \<le> 1"
    and b: "set (posted_with (trace (run_process env evs fresh))) \<subseteq>
            set (built (trace (run_process env evs fresh)))"
    by (auto simp: cache_inv_def split: option.splits)
  have c: "\<forall>c. apigw s = Some c \<longrightarrow> get_apigw_client env event s = (Inr c, s)"
    by (simp add: get_apigw_client_cached)
  have d: "apigw s = None \<and>
      (\<exists>rc domain stage.
         field ''requestContext'' event = Some rc \<and>
         field ''domainName'' rc = Some domain \<and> field ''stage'' rc = Some stage \<and>
         get_apigw_client env event s =
           (Inr (lit ''https://'' @ fmt env domain @ lit ''/'' @ fmt env stage),
            s\<lparr>apigw := Some (lit ''https://'' @ fmt env domain @ lit ''/'' @ fmt env stage),
              trace := trace s @
                [Built (lit ''https://'' @ fmt env domain @ lit ''/'' @ fmt env stage)]\<rparr>))"
    if ne: "snd (get_apigw_client env event s) \<noteq> s"
  proof -
    from ne obtain rc domain stage where
      g: "apigw s = None" "py_getitem event ''requestContext'' = Inr rc"
         "py_getitem rc ''domainName'' = Inr domain" "py_getitem rc ''stage'' = Inr stage"
         "new_client env (trace s)
            (lit ''https://'' @ fmt env domain @ lit ''/'' @ fmt env stage) = None"
      by (auto simp: get_apigw_client_def Let_def split: option.splits sum.splits)
    then have "get_apigw_client env event s =
           (Inr (lit ''https://'' @ fmt env domain @ lit ''/'' @ fmt env stage),
            s\<lparr>apigw := Some (lit ''https://'' @ fmt env domain @ lit ''/'' @ fmt env stage),
              trace := trace s @
                [Built (lit ''https://'' @ fmt env domain @ lit ''/'' @ fmt env stage)]\<rparr>)"
      by (simp add: get_apigw_client_def Let_def)
    with g(1) g(2-4) [THEN getitem_field] show ?thesis
      by blast
  qed
  show ?thesis
    using a b c d by blast
qed

theorem client_built_once_witness:
  "apigw (run_process world [(connect_event, ctx0)] fresh) =
     Some (lit ''https://ws.example.com/prod'') \<and>
   get_apigw_client world other_connect_event (run_process world [(connect_event, ctx0)] fresh) =
     (Inr (lit ''https://ws.example.com/prod''),
      run_process world [(connect_event, ctx0)] fresh) \<and>
   snd (get_apigw_client world connect_event fresh) \<noteq> fresh \<and>
   apigw fresh = None \<and>
   length (built (trace
     (run_process world [(connect_event, ctx0), (other_connect_event, ctx0)] fresh))) \<le> 1 \<and>
   posted_with (trace
     (run_process world [(connect_event, ctx0), (other_connect_event, ctx0)] fresh)) =
     [lit ''https://ws.example.com/prod'', lit ''https://ws.example.com/prod'']"
proof -
  let ?s = "run_process world [(connect_event, ctx0)] fresh"
  have h1: "apigw ?s = Some (lit ''https://ws.example.com/prod'')"
    by (simp add: eval_defs)
  have h2: "snd (get_apigw_client world connect_event fresh) \<noteq> fresh"
    by (simp add: get_apigw_client_def world_defs Let_def)
  have h3: "posted_with (trace
     (run_process world [(connect_event, ctx0), (other_connect_event, ctx0)] fresh)) =
     [lit ''https://ws.example.com/prod'', lit ''https://ws.example.com/prod'']"
    by (simp add: eval_defs)
  note t = client_built_once [of world "[(connect_event, ctx0), (other_connect_event, ctx0)]"
      ?s other_connect_event]
  note u = client_built_once [of world "[]" fresh connect_event]
  have a: "get_apigw_client world other_connect_event ?s =
           (Inr (lit ''https://ws.example.com/prod''), ?s)"
    using t h1 by blast
  have b: "apigw fresh = None"
    using u h2 by blast
  have c: "length (built (trace
     (run_process world [(connect_event, ctx0), (other_connect_event, ctx0)] fresh))) \<le> 1"
    using t by blast
  show ?thesis
    using h1 h2 h3 a b c by blast
qed

end
